theory Spec2Isabelle
  imports Complex_Main
begin

section \<open>The process supervisor of CloudyHost (\<open>src/server/botManager.ts\<close>)\<close>

text \<open>
  The class \<open>BotManager\<close> owns three in-memory tables (\<open>runningBots\<close>,
  \<open>healthCheckData\<close>, \<open>retryData\<close>), writes the persisted status of a bot through
  \<open>storage\<close> (the \<open>FileStorage\<close> class) and appends log entries through \<open>addLog\<close>.
  Node runs every callback on one thread. A callback is modelled as a function from
  state to state; the I/O of a collaborator (storage, log sink) is taken to succeed
  and to complete in the order of the calls. Where several listeners of one event
  run, an \<open>async\<close> listener runs up to its first \<open>await\<close>, then the other listeners run,
  then the rest of the \<open>async\<close> listener. What the environment decides (the clock,
  \<open>Math.random()\<close>, the file system seen by the launcher, the outcome of delivering a
  signal) is an explicit argument or a field of the state.
\<close>

subsection \<open>Data model\<close>

type_synonym botId = string
type_synonym timerId = nat
type_synonym handle = nat

datatype BotStatus = S_running | S_stopped | S_starting | S_error | S_unresponsive

datatype LogLevel = L_info | L_warn | L_error | L_debug

text \<open>The fields of \<open>Bot\<close> the supervisor reads or writes (\<open>id\<close> is the key of the table).\<close>

record Bot =
  name :: string
  mainFile :: string
  status :: BotStatus
  processId :: "string option"
  lastActivity :: int

text \<open>
  A log entry as \<open>addLog\<close> builds it, without its \<open>id\<close> and \<open>timestamp\<close>: they are
  made from the clock and \<open>Math.random()\<close>, and nothing reads them back.
\<close>

record LogEntry =
  level :: LogLevel
  message :: string

record HealthCheckInfo =
  lastCheck :: int
  lastResponse :: "int option"
  consecutiveFailures :: nat
  isWaitingForResponse :: bool
  healthCheckId :: "string option"
  timeoutHandle :: "timerId option"

record RetryInfo =
  attempts :: nat
  lastAttempt :: int
  nextRetryAt :: "int option"
  retryTimeoutHandle :: "timerId option"

text \<open>
  The callbacks handed to \<open>setTimeout\<close>, each with the values its closure captures:
  the retry timer of \<open>scheduleSmartRetry\<close> (the attempt number it logs), the response
  timeout of \<open>performBotHealthCheck\<close>, the force-kill timer of \<open>stopBot\<close> and the
  one-second timer of \<open>startBot\<close> that marks the bot as running.
\<close>

datatype timer_kind =
    RetryTimer botId nat
  | HealthTimer botId string
  | ForceKillTimer botId handle
  | MarkRunningTimer botId handle

text \<open>
  The promise \<open>stopBot\<close> returns, with the variables its executor and listeners
  close over: the \<open>botId\<close> of the call, \<open>isResolved\<close>, the value the promise was
  resolved with, the force-kill timer, and whether the listeners \<open>onExit\<close> and
  \<open>onError\<close> are still attached to the child.
\<close>

record stop_ctx =
  stopBotId :: botId
  isResolved :: bool
  resolvedWith :: "bool option"
  forceKillTimeout :: "timerId option"
  onExitAttached :: bool
  onErrorAttached :: bool

text \<open>
  What a call of \<open>ChildProcess.kill(signal)\<close> of Node can do: deliver the signal, set
  \<open>killed\<close> and return true; return false because the child is gone; throw (the
  platform does not know the signal); or emit an \<open>error\<close> event on the child (the
  signal could not be delivered for another reason) and return false.
\<close>

datatype kill_outcome =
    Delivered
  | NotDelivered
  | KillThrows string
  | KillEmitsError string

text \<open>
  A \<open>ChildProcess\<close> object of Node, with the bot id its listeners captured. \<open>killed\<close>
  is Node's flag; Node documents it so: it ``indicates whether the child process
  successfully received a signal from \<open>subprocess.kill()\<close>'' and ``does not indicate
  that the child process has been terminated''. \<open>killCalls\<close> lists the calls of
  \<open>kill()\<close> on the child, in order. \<open>stdinAvailable\<close> stands for
  \<open>childProcess.stdin && !childProcess.stdin.destroyed\<close>. \<open>stopping\<close> is the promise of
  the \<open>stopBot\<close> call that holds the child, if any.
\<close>

record child =
  owner :: botId
  command :: string
  args :: "string list"
  pid :: "nat option"
  killed :: bool
  stdinAvailable :: bool
  stdinWritten :: "string list"
  killCalls :: "(string \<times> kill_outcome) list"
  stopping :: "stop_ctx option"

text \<open>
  What \<open>startBot\<close> learns from the file system and from \<open>spawn\<close>: whether
  \<open>fs.access\<close> finds the main file, the value of
  \<open>path.extname(bot.mainFile).toLowerCase()\<close>, the path of the interpreter of the
  virtual environment and whether \<open>fs.access\<close> finds it, the message of the error
  \<open>spawn\<close> throws (if it throws), and the pid of the spawned child.
\<close>

record launch_env =
  mainFileAccessible :: bool
  extName :: string
  pythonVenvPath :: string
  pythonVenvAccessible :: bool
  spawnThrows :: "string option"
  spawnedPid :: "nat option"

text \<open>
  The state: the three tables of \<open>BotManager\<close>, the child objects they refer to, the
  pending timeouts, the persisted bots of \<open>FileStorage\<close>, the log files of
  \<open>LogStorage\<close> (one per bot id, absent until the first entry is written), the \<open>log\<close>
  events emitted by \<open>BotManager\<close>, and the clock.
\<close>

record state =
  runningBots :: "botId \<rightharpoonup> handle"
  healthCheckData :: "botId \<rightharpoonup> HealthCheckInfo"
  retryData :: "botId \<rightharpoonup> RetryInfo"
  procs :: "handle \<rightharpoonup> child"
  nextHandle :: handle
  timers :: "timerId \<rightharpoonup> timer_kind \<times> real"
  nextTimer :: timerId
  storage :: "botId \<rightharpoonup> Bot"
  logs :: "botId \<rightharpoonup> LogEntry list"
  emitted :: "(botId \<times> LogEntry) list"
  now :: int

definition HEALTH_CHECK_TIMEOUT :: int where
  "HEALTH_CHECK_TIMEOUT = 30000"

definition MAX_CONSECUTIVE_FAILURES :: nat where
  "MAX_CONSECUTIVE_FAILURES = 3"

definition MAX_RETRY_ATTEMPTS :: nat where
  "MAX_RETRY_ATTEMPTS = 5"

definition BASE_RETRY_DELAY :: real where
  "BASE_RETRY_DELAY = 2000"

subsection \<open>Numbers\<close>

text \<open>
  A Number of JavaScript is an IEEE 754 double, and each arithmetic operation gives
  the exact result rounded to the nearest double, ties to the even one. \<open>fl\<close> is that
  rounding of a real result, for results in the finite range of doubles (below
  \<open>2 ^ 1024\<close> in size): the spacing of the doubles around \<open>x\<close> is \<open>ulp_of x\<close>, with 53
  significant bits down to the least exponent -1022. A real \<open>x\<close> is a double when
  \<open>fl x = x\<close>.
\<close>

definition round_half_even :: "real \<Rightarrow> int" where
  "round_half_even x =
     (let n = \<lfloor>x\<rfloor>; d = x - of_int n
      in if d < 1 / 2 then n else if 1 / 2 < d then n + 1 else if even n then n else n + 1)"

definition ulp_of :: "real \<Rightarrow> real" where
  "ulp_of x = 2 powi (max \<lfloor>log 2 \<bar>x\<bar>\<rfloor> (- 1022) - 52)"

definition fl :: "real \<Rightarrow> real" where
  "fl x = (if x = 0 then 0 else of_int (round_half_even (x / ulp_of x)) * ulp_of x)"

text \<open>
  \<open>Math.round\<close> gives the nearest integer, the larger one at a tie. \<open>new Date(t)\<close> keeps
  the integer part of \<open>t\<close>.
\<close>

definition Math_round :: "real \<Rightarrow> int" where
  "Math_round x = \<lfloor>x + 1 / 2\<rfloor>"

definition integer_part :: "real \<Rightarrow> int" where
  "integer_part x = (if 0 \<le> x then \<lfloor>x\<rfloor> else \<lceil>x\<rceil>)"

subsection \<open>Strings of numbers\<close>

text \<open>A template literal \<open>${n}\<close> of a non-negative integer: its decimal digits.\<close>

function string_of_nat :: "nat \<Rightarrow> string" where
  "string_of_nat n =
     (if n < 10 then [''0123456789'' ! n]
      else string_of_nat (n div 10) @ [''0123456789'' ! (n mod 10)])"
  by pat_completeness auto
termination
  by (relation "measure id") auto

declare string_of_nat.simps [simp del]

text \<open>\<open>${code}\<close> of an exit code, which is \<open>null\<close> when a signal ended the child.\<close>

definition string_of_code :: "nat option \<Rightarrow> string" where
  "string_of_code code = (case code of None \<Rightarrow> ''null'' | Some n \<Rightarrow> string_of_nat n)"

subsection \<open>Log storage, timers, bot storage\<close>

text \<open>
  The class \<open>LogStorage\<close>. \<open>getLogs\<close> reads the file of the id and gives the empty list
  when there is none; \<open>addLog\<close> appends the entry, drops the oldest entry when that
  makes more than 1000, and rewrites the file; \<open>clearLogs\<close> writes the empty list;
  \<open>deleteBotLogs\<close> removes the file.
\<close>

definition getLogs :: "botId \<Rightarrow> state \<Rightarrow> LogEntry list" where
  "getLogs botId s = (case logs s botId of None \<Rightarrow> [] | Some entries \<Rightarrow> entries)"

definition logStorage_addLog :: "botId \<Rightarrow> LogEntry \<Rightarrow> state \<Rightarrow> state" where
  "logStorage_addLog botId entry s =
     (let pushed = getLogs botId s @ [entry];
          kept = (if length pushed > 1000 then tl pushed else pushed)
      in s\<lparr>logs := (logs s)(botId \<mapsto> kept)\<rparr>)"

definition logStorage_clearLogs :: "botId \<Rightarrow> state \<Rightarrow> state" where
  "logStorage_clearLogs botId s = s\<lparr>logs := (logs s)(botId \<mapsto> [])\<rparr>"

definition deleteBotLogs :: "botId \<Rightarrow> state \<Rightarrow> state" where
  "deleteBotLogs botId s = s\<lparr>logs := (logs s)(botId := None)\<rparr>"

text \<open>
  \<open>BotManager.addLog\<close>: the entry is saved through \<open>LogStorage.addLog\<close>, then emitted
  as a \<open>log\<close> event. \<open>BotManager.clearLogs\<close> clears the file and logs that it did.
\<close>

definition addLog :: "botId \<Rightarrow> LogLevel \<Rightarrow> string \<Rightarrow> state \<Rightarrow> state" where
  "addLog botId lvl msg s =
     (let logEntry = \<lparr>level = lvl, message = msg\<rparr>;
          s1 = logStorage_addLog botId logEntry s
      in s1\<lparr>emitted := emitted s1 @ [(botId, logEntry)]\<rparr>)"

definition clearLogs :: "botId \<Rightarrow> state \<Rightarrow> state" where
  "clearLogs botId s = addLog botId L_info ''Logs cleared'' (logStorage_clearLogs botId s)"

definition setTimeout :: "timer_kind \<Rightarrow> real \<Rightarrow> state \<Rightarrow> timerId \<times> state" where
  "setTimeout k delay s =
     (nextTimer s, s\<lparr>timers := (timers s)(nextTimer s \<mapsto> (k, delay)), nextTimer := Suc (nextTimer s)\<rparr>)"

definition clearTimeout :: "timerId \<Rightarrow> state \<Rightarrow> state" where
  "clearTimeout h s = s\<lparr>timers := (timers s)(h := None)\<rparr>"

text \<open>
  \<open>FileStorage.updateBotStatus\<close>: nothing is written for an id with no record;
  \<open>processId || bot.processId\<close> keeps the old process id unless a non-empty one is given.
\<close>

definition updateBotStatus :: "botId \<Rightarrow> BotStatus \<Rightarrow> string option \<Rightarrow> state \<Rightarrow> state" where
  "updateBotStatus botId st newPid s =
     (case storage s botId of
        None \<Rightarrow> s
      | Some bt \<Rightarrow>
          s\<lparr>storage := (storage s)(botId \<mapsto>
               bt\<lparr>status := st,
                   processId := (case newPid of
                                   None \<Rightarrow> processId bt
                                 | Some p \<Rightarrow> if p = [] then processId bt else Some p),
                   lastActivity := now s\<rparr>)\<rparr>)"

subsection \<open>Retry scheduler\<close>

text \<open>
  \<open>scheduleSmartRetry\<close>; \<open>rnd\<close> is the value of \<open>Math.random()\<close>, a double that is at
  least 0 and less than 1. Each product, sum and quotient of the method is rounded
  as a double.
\<close>

definition scheduleSmartRetry :: "real \<Rightarrow> botId \<Rightarrow> state \<Rightarrow> state" where
  "scheduleSmartRetry rnd botId s =
     (let retryInfo = (case retryData s botId of
                         Some ri \<Rightarrow> ri
                       | None \<Rightarrow> \<lparr>attempts = 0, lastAttempt = now s,
                                  nextRetryAt = None, retryTimeoutHandle = None\<rparr>)
      in if attempts retryInfo \<ge> MAX_RETRY_ATTEMPTS then
           (addLog botId L_error
              (''Max retry attempts ('' @ string_of_nat MAX_RETRY_ATTEMPTS @
               '') reached. Bot will not restart automatically.'') s)
             \<lparr>retryData := (retryData s)(botId := None)\<rparr>
         else
           (let baseDelay = fl (BASE_RETRY_DELAY * fl (2 ^ attempts retryInfo));
                jitter = fl (rnd * 1000);
                retryDelay = fl (baseDelay + jitter);
                retryInfo1 = retryInfo\<lparr>attempts := attempts retryInfo + 1,
                                       lastAttempt := now s,
                                       nextRetryAt :=
                                         Some (integer_part (fl (of_int (now s) + retryDelay)))\<rparr>;
                s1 = (case retryTimeoutHandle retryInfo of
                        Some h \<Rightarrow> clearTimeout h s
                      | None \<Rightarrow> s);
                s2 = addLog botId L_info
                       (''Scheduling restart attempt '' @ string_of_nat (attempts retryInfo1) @
                        ''/'' @ string_of_nat MAX_RETRY_ATTEMPTS @ '' in '' @
                        string_of_nat (nat (Math_round (fl (retryDelay / 1000)))) @ ''s'') s1;
                (h, s3) = setTimeout (RetryTimer botId (attempts retryInfo1)) retryDelay s2
            in s3\<lparr>retryData := (retryData s3)(botId \<mapsto> retryInfo1\<lparr>retryTimeoutHandle := Some h\<rparr>)\<rparr>))"

text \<open>\<open>cancelRetries\<close>: a private method with no caller in the class.\<close>

definition cancelRetries :: "botId \<Rightarrow> state \<Rightarrow> state" where
  "cancelRetries botId s =
     (let s1 = (case retryData s botId of
                  None \<Rightarrow> s
                | Some retryInfo \<Rightarrow>
                    (case retryTimeoutHandle retryInfo of
                       None \<Rightarrow> s
                     | Some h \<Rightarrow> clearTimeout h s))
      in s1\<lparr>retryData := (retryData s1)(botId := None)\<rparr>)"

subsection \<open>The exit listener installed by \<open>startBot\<close>\<close>

text \<open>
  \<open>childProcess.on('exit', async (code, signal) => ...)\<close>. \<open>exitHead\<close> is the listener
  up to its first \<open>await\<close>: the two tables are cleaned. \<open>exitLogged\<close> is the next two
  statements: the status is persisted and the exit is logged; a signal name is truthy
  when it is not the empty string. \<open>exitTail\<close> is the listener from its first \<open>await\<close>
  on, ending with the test that engages the retry scheduler. \<open>startBot_onExit\<close> is
  the whole listener, and \<open>exitRecorded\<close> the listener up to that last test.
\<close>

definition exitHead :: "botId \<Rightarrow> state \<Rightarrow> state" where
  "exitHead botId s =
     s\<lparr>runningBots := (runningBots s)(botId := None),
       healthCheckData := (healthCheckData s)(botId := None)\<rparr>"

definition exitLogged :: "botId \<Rightarrow> nat option \<Rightarrow> string option \<Rightarrow> state \<Rightarrow> state" where
  "exitLogged botId code signal s =
     (let st = (if code = Some 0 then S_stopped else S_error);
          s1 = updateBotStatus botId st None s
      in case signal of
           None \<Rightarrow> addLog botId L_info (''Bot process exited with code: '' @ string_of_code code) s1
         | Some sig \<Rightarrow>
             if sig = [] then
               addLog botId L_info (''Bot process exited with code: '' @ string_of_code code) s1
             else addLog botId L_warn (''Bot process terminated by signal: '' @ sig) s1)"

definition exitTail :: "real \<Rightarrow> botId \<Rightarrow> nat option \<Rightarrow> string option \<Rightarrow> state \<Rightarrow> state" where
  "exitTail rnd botId code signal s =
     (let s1 = exitLogged botId code signal s
      in if code \<noteq> Some 0 \<and> signal \<noteq> Some ''SIGTERM'' then scheduleSmartRetry rnd botId s1
         else s1)"

definition exitRecorded :: "botId \<Rightarrow> nat option \<Rightarrow> string option \<Rightarrow> state \<Rightarrow> state" where
  "exitRecorded botId code signal s = exitLogged botId code signal (exitHead botId s)"


subsection \<open>Health monitor\<close>

definition handleHealthCheckFailure :: "botId \<Rightarrow> string \<Rightarrow> state \<Rightarrow> state" where
  "handleHealthCheckFailure botId reason s =
     (case healthCheckData s botId of
        None \<Rightarrow> s
      | Some healthInfo \<Rightarrow>
          (let s1 = (case timeoutHandle healthInfo of
                       Some h \<Rightarrow> clearTimeout h s
                     | None \<Rightarrow> s);
               healthInfo1 = healthInfo\<lparr>timeoutHandle := None,
                                         isWaitingForResponse := False,
                                         consecutiveFailures := consecutiveFailures healthInfo + 1\<rparr>;
               s2 = s1\<lparr>healthCheckData := (healthCheckData s1)(botId \<mapsto> healthInfo1)\<rparr>;
               s3 = addLog botId L_warn
                      (''Health check failed: '' @ reason @ '' (failures: '' @
                       string_of_nat (consecutiveFailures healthInfo1) @ '')'') s2
           in if consecutiveFailures healthInfo1 \<ge> MAX_CONSECUTIVE_FAILURES then
                addLog botId L_error
                  (''Bot marked as unresponsive after '' @
                   string_of_nat (consecutiveFailures healthInfo1) @ '' consecutive failures'')
                  (updateBotStatus botId S_unresponsive None s3)
              else s3))"

definition handleHealthCheckSuccess :: "botId \<Rightarrow> string \<Rightarrow> state \<Rightarrow> state" where
  "handleHealthCheckSuccess botId checkId s =
     (case healthCheckData s botId of
        None \<Rightarrow> s
      | Some healthInfo \<Rightarrow>
          if healthCheckId healthInfo \<noteq> Some checkId then s
          else
            (let s1 = (case timeoutHandle healthInfo of
                         Some h \<Rightarrow> clearTimeout h s
                       | None \<Rightarrow> s);
                 healthInfo1 = healthInfo\<lparr>timeoutHandle := None,
                                           isWaitingForResponse := False,
                                           lastResponse := Some (now s),
                                           consecutiveFailures := 0\<rparr>;
                 s2 = s1\<lparr>healthCheckData := (healthCheckData s1)(botId \<mapsto> healthInfo1)\<rparr>;
                 s3 = (case storage s2 botId of
                         None \<Rightarrow> s2
                       | Some bt \<Rightarrow>
                           if status bt = S_unresponsive then
                             addLog botId L_info ''Bot is now responsive again''
                               (updateBotStatus botId S_running None s2)
                           else s2)
             in addLog botId L_debug (''Health check passed: '' @ checkId) s3))"

text \<open>
  \<open>processHealthCheckResponse\<close>, called for an output line that contains the marker
  of a response. \<open>captured\<close> is the first group of the match of
  \<open>/__HEALTH_CHECK_RESPONSE__:(\S+)/\<close> on the line, \<open>None\<close> when the line does not
  match; \<open>trim()\<close> leaves the captured run of non-whitespace characters as it is.
\<close>

definition processHealthCheckResponse :: "botId \<Rightarrow> string option \<Rightarrow> state \<Rightarrow> state" where
  "processHealthCheckResponse botId captured s =
     (case captured of
        None \<Rightarrow> addLog botId L_warn ''Malformed health check response received'' s
      | Some checkId \<Rightarrow>
          if checkId = [] then
            addLog botId L_warn ''Malformed health check response received'' s
          else handleHealthCheckSuccess botId checkId s)"

text \<open>
  \<open>performBotHealthCheck\<close>; \<open>checkId\<close> is the value of \<open>generateHealthCheckId()\<close>, made
  from the clock and \<open>Math.random()\<close>. Writing a string to the child's stdin does not
  throw, so the \<open>catch\<close> of the method has no branch here.
\<close>

definition performBotHealthCheck :: "string \<Rightarrow> botId \<Rightarrow> state \<Rightarrow> state" where
  "performBotHealthCheck checkId botId s =
     (case Option.bind (runningBots s botId) (procs s) of
        None \<Rightarrow>
          addLog botId L_error ''Bot process no longer exists''
            (updateBotStatus botId S_error None
               (s\<lparr>runningBots := (runningBots s)(botId := None),
                  healthCheckData := (healthCheckData s)(botId := None)\<rparr>))
      | Some childProcess \<Rightarrow>
          if killed childProcess then
            addLog botId L_error ''Bot process no longer exists''
              (updateBotStatus botId S_error None
                 (s\<lparr>runningBots := (runningBots s)(botId := None),
                    healthCheckData := (healthCheckData s)(botId := None)\<rparr>))
          else
            (let healthInfo = (case healthCheckData s botId of
                                 Some hi \<Rightarrow> hi
                               | None \<Rightarrow> \<lparr>lastCheck = now s, lastResponse = None,
                                          consecutiveFailures = 0, isWaitingForResponse = False,
                                          healthCheckId = None, timeoutHandle = None\<rparr>);
                 s1 = s\<lparr>healthCheckData := (healthCheckData s)(botId \<mapsto> healthInfo)\<rparr>
             in if isWaitingForResponse healthInfo then
                  (if now s - lastCheck healthInfo > HEALTH_CHECK_TIMEOUT then
                     handleHealthCheckFailure botId ''Health check timeout'' s1
                   else s1)
                else
                  (let healthInfo1 = healthInfo\<lparr>lastCheck := now s,
                                                isWaitingForResponse := True,
                                                healthCheckId := Some checkId\<rparr>;
                       s2 = s1\<lparr>healthCheckData := (healthCheckData s1)(botId \<mapsto> healthInfo1)\<rparr>
                   in if stdinAvailable childProcess then
                        (let s3 = (case runningBots s2 botId of
                                     None \<Rightarrow> s2
                                   | Some h \<Rightarrow>
                                       s2\<lparr>procs := (procs s2)(h \<mapsto>
                                            childProcess\<lparr>stdinWritten := stdinWritten childProcess @
                                              [''__HEALTH_CHECK__:'' @ checkId @ [CHR 10]]\<rparr>)\<rparr>);
                             (t, s4) = setTimeout (HealthTimer botId checkId) (real_of_int HEALTH_CHECK_TIMEOUT) s3;
                             s5 = s4\<lparr>healthCheckData := (healthCheckData s4)(botId \<mapsto>
                                        healthInfo1\<lparr>timeoutHandle := Some t\<rparr>)\<rparr>
                         in addLog botId L_debug (''Health check sent: '' @ checkId) s5)
                      else
                        handleHealthCheckFailure botId
                          ''Cannot send health check - stdin not available'' s2)))"

subsection \<open>Start\<close>

text \<open>The \<open>catch\<close> of \<open>startBot\<close>, for an error with message \<open>msg\<close>.\<close>

definition startBot_failed :: "string \<Rightarrow> botId \<Rightarrow> state \<Rightarrow> bool \<times> state" where
  "startBot_failed msg botId s =
     (False, addLog botId L_error (''Failed to start bot: '' @ msg)
               (updateBotStatus botId S_error None s))"

text \<open>
  The end of \<open>startBot\<close>: \<open>spawn\<close>, the entry in \<open>runningBots\<close>, the listeners (they are
  the functions \<open>startBot_onExit\<close> and \<open>errorHead\<close> with \<open>errorTail\<close>, run by \<open>childExit\<close>
  and \<open>childError\<close>), and the timer that marks the bot as running after one second.
\<close>

definition spawnBot :: "launch_env \<Rightarrow> string \<Rightarrow> string list \<Rightarrow> botId \<Rightarrow> state \<Rightarrow> bool \<times> state" where
  "spawnBot env cmd as botId s =
     (case spawnThrows env of
        Some msg \<Rightarrow> startBot_failed msg botId s
      | None \<Rightarrow>
          (let h = nextHandle s;
               childProcess = \<lparr>owner = botId, command = cmd, args = as, pid = spawnedPid env,
                               killed = False, stdinAvailable = True, stdinWritten = [],
                               killCalls = [], stopping = None\<rparr>;
               s1 = s\<lparr>procs := (procs s)(h \<mapsto> childProcess), nextHandle := Suc h,
                       runningBots := (runningBots s)(botId \<mapsto> h)\<rparr>;
               (t, s2) = setTimeout (MarkRunningTimer botId h) 1000 s1
           in (True, s2)))"

definition startBot :: "launch_env \<Rightarrow> botId \<Rightarrow> state \<Rightarrow> bool \<times> state" where
  "startBot env botId s =
     (case storage s botId of
        None \<Rightarrow> startBot_failed (''Bot '' @ botId @ '' not found'') botId s
      | Some bt \<Rightarrow>
          if runningBots s botId \<noteq> None then
            (False, addLog botId L_warn ''Bot already running'' s)
          else
            (let s1 = addLog botId L_info (''Starting bot: '' @ name bt)
                        (updateBotStatus botId S_starting None s)
             in if \<not> mainFileAccessible env then
                  (False, addLog botId L_error (''Main file not found: '' @ mainFile bt)
                            (updateBotStatus botId S_error None s1))
                else if extName env = ''.js'' \<or> extName env = ''.ts'' then
                  spawnBot env ''node'' [mainFile bt] botId s1
                else if extName env = ''.py'' then
                  (if pythonVenvAccessible env then
                     spawnBot env (pythonVenvPath env) [mainFile bt] botId
                       (addLog botId L_info ''Using Python virtual environment'' s1)
                   else
                     spawnBot env ''python3'' [mainFile bt] botId
                       (addLog botId L_warn
                          ''Virtual environment not found, using system Python'' s1))
                else
                  (False, addLog botId L_error (''Unsupported file type: '' @ extName env)
                            (updateBotStatus botId S_error None s1))))"

text \<open>The callback of the one-second timer of \<open>startBot\<close>.\<close>

definition markRunning :: "botId \<Rightarrow> handle \<Rightarrow> state \<Rightarrow> state" where
  "markRunning botId h s =
     (case procs s h of
        None \<Rightarrow> s
      | Some childProcess \<Rightarrow>
          if runningBots s botId \<noteq> None \<and> \<not> killed childProcess then
            addLog botId L_info ''Bot is now running''
              (updateBotStatus botId S_running (map_option string_of_nat (pid childProcess)) s)
          else s)"

text \<open>
  The \<open>error\<close> listener installed by \<open>startBot\<close>, also \<open>async\<close>: \<open>errorHead\<close> is the
  listener up to its first \<open>await\<close>, \<open>errorTail\<close> the rest.
\<close>

definition errorHead :: "botId \<Rightarrow> state \<Rightarrow> state" where
  "errorHead botId s =
     (let s1 = s\<lparr>runningBots := (runningBots s)(botId := None)\<rparr>;
          s2 = (case healthCheckData s1 botId of
                  None \<Rightarrow> s1
                | Some healthInfo \<Rightarrow>
                    (case timeoutHandle healthInfo of
                       None \<Rightarrow> s1
                     | Some h \<Rightarrow> clearTimeout h s1))
      in s2\<lparr>healthCheckData := (healthCheckData s2)(botId := None)\<rparr>)"

definition errorTail :: "botId \<Rightarrow> string \<Rightarrow> state \<Rightarrow> state" where
  "errorTail botId msg s =
     addLog botId L_error (''Process error: '' @ msg) (updateBotStatus botId S_error None s)"

subsection \<open>Stop\<close>

definition stopCtx :: "handle \<Rightarrow> state \<Rightarrow> stop_ctx option" where
  "stopCtx h s = Option.bind (procs s h) stopping"

definition updChild :: "handle \<Rightarrow> (child \<Rightarrow> child) \<Rightarrow> state \<Rightarrow> state" where
  "updChild h f s =
     (case procs s h of
        None \<Rightarrow> s
      | Some c \<Rightarrow> s\<lparr>procs := (procs s)(h \<mapsto> f c)\<rparr>)"

definition setStopCtx :: "handle \<Rightarrow> stop_ctx \<Rightarrow> state \<Rightarrow> state" where
  "setStopCtx h ctx s = updChild h (\<lambda>c. c\<lparr>stopping := Some ctx\<rparr>) s"

text \<open>
  The listeners \<open>onExit\<close> and \<open>onError\<close> of \<open>stopBot\<close>, attached with \<open>once\<close>: a call
  detaches the listener, then runs it.
\<close>

definition stopBot_onExit :: "handle \<Rightarrow> nat option \<Rightarrow> string option \<Rightarrow> state \<Rightarrow> state" where
  "stopBot_onExit h code signal s =
     (case stopCtx h s of
        None \<Rightarrow> s
      | Some ctx \<Rightarrow>
          if isResolved ctx then setStopCtx h (ctx\<lparr>onExitAttached := False\<rparr>) s
          else
            (let s1 = setStopCtx h (ctx\<lparr>onExitAttached := False, isResolved := True,
                                        resolvedWith := Some True\<rparr>) s;
                 botId = stopBotId ctx
             in case signal of
                  None \<Rightarrow>
                    addLog botId L_info (''Bot stopped with code: '' @ string_of_code code) s1
                | Some sig \<Rightarrow>
                    if sig = [] then
                      addLog botId L_info (''Bot stopped with code: '' @ string_of_code code) s1
                    else addLog botId L_info (''Bot stopped by signal: '' @ sig) s1))"

definition stopBot_onError :: "handle \<Rightarrow> string \<Rightarrow> state \<Rightarrow> state" where
  "stopBot_onError h msg s =
     (case stopCtx h s of
        None \<Rightarrow> s
      | Some ctx \<Rightarrow>
          if isResolved ctx then setStopCtx h (ctx\<lparr>onErrorAttached := False\<rparr>) s
          else
            addLog (stopBotId ctx) L_error (''Error stopping bot: '' @ msg)
              (setStopCtx h (ctx\<lparr>onErrorAttached := False, isResolved := True,
                                 resolvedWith := Some False\<rparr>) s))"

text \<open>
  \<open>emit('error', ...)\<close> on a child, as far as it runs before it returns: the listener
  of \<open>startBot\<close> up to its first \<open>await\<close>, then, if still attached, \<open>onError\<close> of
  \<open>stopBot\<close>.
\<close>

definition emitError :: "handle \<Rightarrow> string \<Rightarrow> state \<Rightarrow> state" where
  "emitError h msg s =
     (case procs s h of
        None \<Rightarrow> s
      | Some c \<Rightarrow>
          (let s1 = errorHead (owner c) s
           in case stopCtx h s1 of
                None \<Rightarrow> s1
              | Some ctx \<Rightarrow> if onErrorAttached ctx then stopBot_onError h msg s1 else s1))"

text \<open>
  \<open>childProcess.kill(signal)\<close> with the outcome the platform gives it; the first
  component is the message of the error thrown, if the call throws. When the call
  emits an \<open>error\<close> event, the rest of the listener of \<open>startBot\<close> runs after the
  callback that called \<open>kill\<close> has returned: that is \<open>errorSettles\<close>.
\<close>

definition errorSettles :: "handle \<Rightarrow> kill_outcome \<Rightarrow> state \<Rightarrow> state" where
  "errorSettles h outcome s =
     (case outcome of
        KillEmitsError msg \<Rightarrow>
          (case procs s h of
             None \<Rightarrow> s
           | Some c \<Rightarrow> errorTail (owner c) msg s)
      | _ \<Rightarrow> s)"

definition kill :: "handle \<Rightarrow> string \<Rightarrow> kill_outcome \<Rightarrow> state \<Rightarrow> string option \<times> state" where
  "kill h sig outcome s =
     (let s1 = updChild h (\<lambda>c. c\<lparr>killCalls := killCalls c @ [(sig, outcome)]\<rparr>) s
      in case outcome of
           Delivered \<Rightarrow> (None, updChild h (\<lambda>c. c\<lparr>killed := True\<rparr>) s1)
         | NotDelivered \<Rightarrow> (None, s1)
         | KillThrows msg \<Rightarrow> (Some msg, s1)
         | KillEmitsError msg \<Rightarrow> (None, emitError h msg s1))"

text \<open>
  \<open>stopBot\<close> up to the point where it returns its promise. The first component is the
  value the promise already has then (\<open>None\<close>: still pending); the promise itself is
  the \<open>stopping\<close> field of the child, resolved later by \<open>childExit\<close>, \<open>emitError\<close> or
  \<open>forceKill\<close>. \<open>out\<close> is the outcome of \<open>kill('SIGTERM')\<close>.
\<close>

definition stopBot :: "kill_outcome \<Rightarrow> botId \<Rightarrow> state \<Rightarrow> bool option \<times> state" where
  "stopBot out botId s =
     (case runningBots s botId of
        None \<Rightarrow> (Some False, addLog botId L_warn ''Bot is not running'' s)
      | Some h \<Rightarrow>
          (let s1 = addLog botId L_info ''Stopping bot...'' s;
               s2 = s1\<lparr>runningBots := (runningBots s1)(botId := None)\<rparr>;
               s3 = updateBotStatus botId S_stopped None s2;
               s4 = setStopCtx h \<lparr>stopBotId = botId, isResolved = False, resolvedWith = None,
                                   forceKillTimeout = None, onExitAttached = True,
                                   onErrorAttached = True\<rparr> s3;
               (thrown, s5) = kill h ''SIGTERM'' out s4
           in case thrown of
                Some msg \<Rightarrow>
                  (case stopCtx h s5 of
                     None \<Rightarrow> (None, s5)
                   | Some ctx \<Rightarrow>
                       if isResolved ctx then (resolvedWith ctx, s5)
                       else
                         (Some False,
                          addLog botId L_error (''Failed to send SIGTERM: '' @ msg)
                            (setStopCtx h (ctx\<lparr>isResolved := True, resolvedWith := Some False\<rparr>) s5)))
              | None \<Rightarrow>
                  (let (t, s6) = setTimeout (ForceKillTimer botId h) 5000 s5;
                       s7 = updChild h (\<lambda>c. c\<lparr>stopping :=
                               map_option (\<lambda>ctx. ctx\<lparr>forceKillTimeout := Some t\<rparr>) (stopping c)\<rparr>) s6
                   in (Option.bind (stopCtx h s7) resolvedWith, errorSettles h out s7))))"

text \<open>
  The callback of the force-kill timer; \<open>out\<close> is the outcome of \<open>kill('SIGKILL')\<close>,
  should the callback call it.
\<close>

definition forceKill :: "kill_outcome \<Rightarrow> botId \<Rightarrow> handle \<Rightarrow> state \<Rightarrow> state" where
  "forceKill out botId h s =
     (case procs s h of
        None \<Rightarrow> s
      | Some childProcess \<Rightarrow>
          (case stopping childProcess of
             None \<Rightarrow> s
           | Some ctx \<Rightarrow>
               if isResolved ctx then s
               else
                 (let s1 = (if \<not> killed childProcess then
                              (case kill h ''SIGKILL'' out s of
                                 (None, s') \<Rightarrow>
                                   addLog botId L_warn ''Bot force-killed after timeout'' s'
                               | (Some msg, s') \<Rightarrow>
                                   addLog botId L_error (''Failed to force kill: '' @ msg) s')
                            else s);
                      s2 = (case stopCtx h s1 of
                              None \<Rightarrow> s1
                            | Some ctx1 \<Rightarrow>
                                if isResolved ctx1 then s1
                                else setStopCtx h
                                       (ctx1\<lparr>isResolved := True, resolvedWith := Some True,
                                             onExitAttached := False,
                                             onErrorAttached := False\<rparr>) s1)
                  in if \<not> killed childProcess then errorSettles h out s2 else s2)))"

subsection \<open>Events\<close>

text \<open>
  The child with handle \<open>h\<close> emits \<open>exit\<close>. The listeners run in the order they were
  attached: the listener of \<open>startBot\<close> up to its first \<open>await\<close>, then \<open>onExit\<close> of
  \<open>stopBot\<close> if it is attached, then the listener of \<open>stopBot\<close> that clears the
  force-kill timer; the rest of the listener of \<open>startBot\<close> runs after them.
\<close>

definition childExit :: "real \<Rightarrow> handle \<Rightarrow> nat option \<Rightarrow> string option \<Rightarrow> state \<Rightarrow> state" where
  "childExit rnd h code signal s =
     (case procs s h of
        None \<Rightarrow> s
      | Some c \<Rightarrow>
          (let s1 = exitHead (owner c) s;
               s2 = (case stopCtx h s1 of
                       None \<Rightarrow> s1
                     | Some ctx \<Rightarrow>
                         if onExitAttached ctx then stopBot_onExit h code signal s1 else s1);
               s3 = (case Option.bind (stopCtx h s2) forceKillTimeout of
                       None \<Rightarrow> s2
                     | Some t \<Rightarrow> clearTimeout t s2)
           in exitTail rnd (owner c) code signal s3))"

text \<open>
  The child with handle \<open>h\<close> emits \<open>error\<close> by itself (it could not be spawned, or a
  signal could not be delivered): the listeners, then the rest of the listener of
  \<open>startBot\<close>.
\<close>

definition childError :: "handle \<Rightarrow> string \<Rightarrow> state \<Rightarrow> state" where
  "childError h msg s = errorSettles h (KillEmitsError msg) (emitError h msg s)"

text \<open>Time passes: the clock read by \<open>Date.now()\<close> and \<open>new Date()\<close> moves on by \<open>ms\<close>.\<close>

definition clockAdvances :: "int \<Rightarrow> state \<Rightarrow> state" where
  "clockAdvances ms s = s\<lparr>now := now s + ms\<rparr>"

text \<open>
  A pending timer fires: it leaves the table of pending timers and its callback runs.
  A timer that is not pending (never set, cleared, or fired before) does not fire.
  The arguments are what the callback may ask the environment for. The callback of
  the health-check timeout reads the \<open>HealthCheckInfo\<close> object its closure captured,
  not the table; its firing is not part of this model.
\<close>

definition retryFired :: "launch_env \<Rightarrow> botId \<Rightarrow> nat \<Rightarrow> state \<Rightarrow> state" where
  "retryFired env botId n s =
     (let s1 = addLog botId L_info
                 (''Attempting automatic restart ('' @ string_of_nat n @ ''/'' @
                  string_of_nat MAX_RETRY_ATTEMPTS @ '')'') s;
          (success, s2) = startBot env botId s1
      in if success then
           (addLog botId L_info ''Automatic restart successful'' s2)
             \<lparr>retryData := (retryData s2)(botId := None)\<rparr>
         else addLog botId L_warn ''Automatic restart failed'' s2)"

definition retryTimerFires :: "launch_env \<Rightarrow> timerId \<Rightarrow> state \<Rightarrow> state" where
  "retryTimerFires env t s =
     (case timers s t of
        Some (RetryTimer botId n, delay) \<Rightarrow>
          retryFired env botId n (s\<lparr>timers := (timers s)(t := None)\<rparr>)
      | _ \<Rightarrow> s)"

definition forceKillTimerFires :: "kill_outcome \<Rightarrow> timerId \<Rightarrow> state \<Rightarrow> state" where
  "forceKillTimerFires out t s =
     (case timers s t of
        Some (ForceKillTimer botId h, delay) \<Rightarrow>
          forceKill out botId h (s\<lparr>timers := (timers s)(t := None)\<rparr>)
      | _ \<Rightarrow> s)"

definition markRunningTimerFires :: "timerId \<Rightarrow> state \<Rightarrow> state" where
  "markRunningTimerFires t s =
     (case timers s t of
        Some (MarkRunningTimer botId h, delay) \<Rightarrow>
          markRunning botId h (s\<lparr>timers := (timers s)(t := None)\<rparr>)
      | _ \<Rightarrow> s)"

subsection \<open>Delete\<close>

text \<open>
  \<open>deleteBot\<close> after its \<open>await this.stopBot(botId)\<close>; \<open>removed\<close> says whether \<open>fs.rm\<close>
  succeeded, and \<open>path.join('bots', botId)\<close> is written for an id that is one path
  segment.
\<close>

definition deleteBot_finish :: "bool \<Rightarrow> botId \<Rightarrow> state \<Rightarrow> bool \<times> state" where
  "deleteBot_finish removed botId s =
     (let s1 = (case storage s botId of
                  None \<Rightarrow> s
                | Some bt \<Rightarrow>
                    if removed then addLog botId L_info (''Removed bot files: bots/'' @ botId) s
                    else s);
          s2 = s1\<lparr>storage := (storage s1)(botId := None)\<rparr>
      in (True, deleteBotLogs botId s2))"

text \<open>
  \<open>deleteBot\<close>: for a live id it first awaits \<open>stopBot\<close>; while that promise is pending
  the result is \<open>None\<close>, and \<open>deleteBot_finish\<close> runs once the promise is resolved.
\<close>

definition deleteBot :: "kill_outcome \<Rightarrow> bool \<Rightarrow> botId \<Rightarrow> state \<Rightarrow> bool option \<times> state" where
  "deleteBot out removed botId s =
     (if runningBots s botId \<noteq> None then
        (case stopBot out botId s of
           (None, s1) \<Rightarrow> (None, s1)
         | (Some r, s1) \<Rightarrow> (case deleteBot_finish removed botId s1 of (b, s2) \<Rightarrow> (Some b, s2)))
      else (case deleteBot_finish removed botId s of (b, s2) \<Rightarrow> (Some b, s2)))"

subsection \<open>A concrete run\<close>

text \<open>
  One bot, \<open>bot-1\<close>, whose main file is \<open>index.js\<close>: it is started, probed, crashes
  with exit code 1 (a retry is scheduled), and is started again by hand before the
  retry timer fires.
\<close>

definition env_js :: launch_env where
  "env_js = \<lparr>mainFileAccessible = True, extName = ''.js'',
              pythonVenvPath = ''bots/bot-1/venv/bin/python'', pythonVenvAccessible = False,
              spawnThrows = None, spawnedPid = Some 4242\<rparr>"

definition bot1 :: Bot where
  "bot1 = \<lparr>name = ''demo'', mainFile = ''index.js'', status = S_stopped,
            processId = None, lastActivity = 0\<rparr>"

definition initial_state :: state where
  "initial_state =
     \<lparr>runningBots = Map.empty, healthCheckData = Map.empty, retryData = Map.empty,
      procs = Map.empty, nextHandle = 0, timers = Map.empty, nextTimer = 0,
      storage = [''bot-1'' \<mapsto> bot1], logs = Map.empty, emitted = [], now = 1000\<rparr>"

text \<open>The child object \<open>spawnBot\<close> makes for \<open>bot-1\<close>.\<close>

definition child0 :: child where
  "child0 = \<lparr>owner = ''bot-1'', command = ''node'', args = [''index.js''],
              pid = Some 4242, killed = False, stdinAvailable = True,
              stdinWritten = [], killCalls = [], stopping = None\<rparr>"

definition started_state :: state where
  "started_state = snd (startBot env_js ''bot-1'' initial_state)"

definition probed_state :: state where
  "probed_state = performBotHealthCheck ''hc_1000_k3x9'' ''bot-1'' started_state"

definition crashed_state :: state where
  "crashed_state = childExit (1 / 2) 0 (Some 1) None started_state"

definition restarted_state :: state where
  "restarted_state = snd (startBot env_js ''bot-1'' crashed_state)"

text \<open>
  Probes that time out: after the first probe of \<open>probed_state\<close> two responses are
  missed, each after 30 seconds and each followed, 30 seconds later, by a new probe
  (\<open>two_failures_state\<close>); the third miss makes the bot unresponsive, and one more
  probe is sent (\<open>unresponsive_probed_state\<close>).
\<close>

definition two_failures_state :: state where
  "two_failures_state =
     performBotHealthCheck ''hc_121000_c1d2'' ''bot-1'' (clockAdvances 30000
       (handleHealthCheckFailure ''bot-1'' ''Health check response timeout'' (clockAdvances 30000
          (performBotHealthCheck ''hc_61000_a8b7'' ''bot-1'' (clockAdvances 30000
             (handleHealthCheckFailure ''bot-1'' ''Health check response timeout''
                (clockAdvances 30000 probed_state)))))))"

definition unresponsive_probed_state :: state where
  "unresponsive_probed_state =
     performBotHealthCheck ''hc_181000_e5f6'' ''bot-1'' (clockAdvances 30000
       (handleHealthCheckFailure ''bot-1'' ''Health check response timeout''
          (clockAdvances 30000 two_failures_state)))"

text \<open>
  Stops: \<open>stopping_state\<close> is \<open>started_state\<close> after \<open>stopBot\<close> has sent SIGTERM and
  returned its pending promise; \<open>stopped_again_state\<close> is \<open>restarted_state\<close> after
  \<open>stopBot\<close> and the exit of the child by SIGTERM.
\<close>

definition stopping_state :: state where
  "stopping_state = snd (stopBot Delivered ''bot-1'' started_state)"

definition stopped_again_state :: state where
  "stopped_again_state =
     childExit (1 / 2) 1 None (Some ''SIGTERM'') (snd (stopBot Delivered ''bot-1'' restarted_state))"


section \<open>Properties\<close>

subsection \<open>Rounding to doubles\<close>

lemma round_half_even_le: "x \<le> of_int m \<Longrightarrow> round_half_even x \<le> m"
  unfolding round_half_even_def Let_def
  by (auto simp: not_less) linarith+

lemma round_half_even_ge: "of_int m \<le> x \<Longrightarrow> m \<le> round_half_even x"
  unfolding round_half_even_def Let_def
  by (auto simp: not_less) linarith+

lemma round_half_even_int [simp]: "round_half_even (of_int m) = m"
  by (simp add: round_half_even_def)



lemma powi_nonpos: "k \<le> 0 \<Longrightarrow> (2::real) powi k = 1 / 2 ^ nat (- k)"
  by (auto simp add: power_int_def inverse_eq_divide power_one_over)

lemma ulp_of_below:
  assumes "x \<noteq> 0" and "\<bar>x\<bar> < 2 ^ M" and "M \<le> 53"
  shows "\<exists>N::nat. ulp_of x = 1 / 2 ^ N \<and> 53 \<le> N + M"
proof -
  have "log 2 \<bar>x\<bar> < log 2 (2 ^ M)"
    using assms by (subst log_less_cancel_iff) auto
  then have "log 2 \<bar>x\<bar> < real M"
    using log_pow_cancel [of 2 M] by simp
  then have "\<lfloor>log 2 \<bar>x\<bar>\<rfloor> \<le> int M - 1" by linarith
  then have k: "max \<lfloor>log 2 \<bar>x\<bar>\<rfloor> (- 1022) - 52 \<le> int M - 53" by simp
  have "max \<lfloor>log 2 \<bar>x\<bar>\<rfloor> (- 1022) - 52 \<le> 0" using k assms(3) by linarith
  from powi_nonpos [OF this]
  have "ulp_of x = 1 / 2 ^ nat (- (max \<lfloor>log 2 \<bar>x\<bar>\<rfloor> (- 1022) - 52))"
    unfolding ulp_of_def .
  moreover have "53 \<le> nat (- (max \<lfloor>log 2 \<bar>x\<bar>\<rfloor> (- 1022) - 52)) + M"
    using k by linarith
  ultimately show ?thesis by blast
qed

lemma ulp_of_small:
  assumes "x \<noteq> 0" and "\<bar>x\<bar> < 2 ^ 53"
  shows "\<exists>N::nat. ulp_of x = 1 / 2 ^ N"
  using ulp_of_below [OF assms] by blast

lemma fl_le_int:
  assumes "\<bar>x\<bar> < 2 ^ 53" and "x \<le> of_int n"
  shows "fl x \<le> of_int n"
proof (cases "x = 0")
  case True
  with assms show ?thesis by (simp add: fl_def)
next
  case False
  from ulp_of_small [OF False assms(1)] obtain N :: nat where u: "ulp_of x = 1 / 2 ^ N" by blast
  have "x / ulp_of x = x * 2 ^ N" by (simp add: u)
  also have "\<dots> \<le> of_int n * 2 ^ N" using assms(2) by simp
  also have "\<dots> = of_int (n * 2 ^ N)" by simp
  finally have "round_half_even (x / ulp_of x) \<le> n * 2 ^ N"
    by (rule round_half_even_le)
  then have "real_of_int (round_half_even (x / ulp_of x)) \<le> real_of_int (n * 2 ^ N)"
    by (simp only: of_int_le_iff)
  then have "real_of_int (round_half_even (x / ulp_of x)) \<le> of_int n * 2 ^ N"
    by simp
  then show ?thesis
    using False by (simp add: fl_def u field_simps)
qed

lemma fl_ge_int:
  assumes "\<bar>x\<bar> < 2 ^ 53" and "of_int n \<le> x"
  shows "of_int n \<le> fl x"
proof (cases "x = 0")
  case True
  with assms show ?thesis by (simp add: fl_def)
next
  case False
  from ulp_of_small [OF False assms(1)] obtain N :: nat where u: "ulp_of x = 1 / 2 ^ N" by blast
  have "of_int (n * 2 ^ N) = of_int n * (2::real) ^ N" by simp
  also have "\<dots> \<le> x * 2 ^ N" using assms(2) by simp
  also have "\<dots> = x / ulp_of x" by (simp add: u)
  finally have "n * 2 ^ N \<le> round_half_even (x / ulp_of x)"
    by (rule round_half_even_ge)
  then have "real_of_int (n * 2 ^ N) \<le> real_of_int (round_half_even (x / ulp_of x))"
    by (simp only: of_int_le_iff)
  then have "of_int n * 2 ^ N \<le> real_of_int (round_half_even (x / ulp_of x))"
    by simp
  then show ?thesis
    using False by (simp add: fl_def u field_simps)
qed

lemma fl_of_int:
  assumes "\<bar>real_of_int n\<bar> < 2 ^ 53"
  shows "fl (of_int n) = of_int n"
  using fl_le_int [OF assms order_refl] fl_ge_int [OF assms order_refl] by simp






lemma fl_dyadic:
  assumes "\<bar>x\<bar> < 2 ^ M" and "M \<le> 53" and "x * 2 ^ (53 - M) = of_int m"
  shows "fl x = x"
proof (cases "x = 0")
  case True
  then show ?thesis by (simp add: fl_def)
next
  case False
  from ulp_of_below [OF False assms(1,2)] obtain N :: nat
    where u: "ulp_of x = 1 / 2 ^ N" and n: "53 \<le> N + M" by blast
  from n assms(2) have N: "N = (53 - M) + (N - (53 - M))" by simp
  have "x / ulp_of x = x * 2 ^ N" by (simp add: u)
  also have "\<dots> = x * 2 ^ (53 - M) * 2 ^ (N - (53 - M))"
    by (subst N) (simp add: power_add)
  also have "\<dots> = of_int (m * 2 ^ (N - (53 - M)))"
    by (simp add: assms(3))
  finally have e: "x / ulp_of x = of_int (m * 2 ^ (N - (53 - M)))" .
  have "round_half_even (x / ulp_of x) = m * 2 ^ (N - (53 - M))"
    unfolding e by (rule round_half_even_int)
  moreover have "real_of_int (m * 2 ^ (N - (53 - M))) * (1 / 2 ^ N) = x"
  proof -
    have "real_of_int (m * 2 ^ (N - (53 - M))) = x * 2 ^ (53 - M) * 2 ^ (N - (53 - M))"
      by (simp add: assms(3))
    also have "\<dots> = x * 2 ^ N"
      by (subst (2) N) (simp add: power_add)
    finally show ?thesis by simp
  qed
  ultimately show ?thesis
    using False by (simp add: fl_def u)
qed

lemma fl_numeral: "numeral k < (2::real) ^ 53 \<Longrightarrow> fl (numeral k) = numeral k"
  using fl_of_int [of "numeral k"] by simp

lemma fl_one: "fl 1 = 1"
  using fl_of_int [of 1] by simp

lemma fl_zero: "fl 0 = 0"
  by (simp add: fl_def)






lemma fl_quarter: "fl (1 / 4) = 1 / 4"
  by (rule fl_dyadic [where M = 0 and m = "2 ^ 51"]) simp_all

lemma fl_5_2: "fl (5 / 2) = 5 / 2"
  by (rule fl_dyadic [where M = 2 and m = "5 * 2 ^ 50"]) simp_all




subsection \<open>Frame facts about the building blocks\<close>

lemma string_of_nat_digit: "n < 10 \<Longrightarrow> string_of_nat n = [''0123456789'' ! n]"
  by (simp add: string_of_nat.simps)

lemma addLog_fields [simp]:
  "runningBots (addLog b l m s) = runningBots s"
  "healthCheckData (addLog b l m s) = healthCheckData s"
  "retryData (addLog b l m s) = retryData s"
  "procs (addLog b l m s) = procs s"
  "nextHandle (addLog b l m s) = nextHandle s"
  "timers (addLog b l m s) = timers s"
  "nextTimer (addLog b l m s) = nextTimer s"
  "storage (addLog b l m s) = storage s"
  "now (addLog b l m s) = now s"
  "emitted (addLog b l m s) = emitted s @ [(b, \<lparr>level = l, message = m\<rparr>)]"
  by (simp_all add: addLog_def logStorage_addLog_def Let_def)

lemma addLog_logs:
  "logs (addLog b l m s) =
     (logs s)(b \<mapsto> (if length (getLogs b s) < 1000
                      then getLogs b s @ [\<lparr>level = l, message = m\<rparr>]
                      else tl (getLogs b s) @ [\<lparr>level = l, message = m\<rparr>]))"
  by (cases "getLogs b s") (auto simp add: addLog_def logStorage_addLog_def Let_def)

lemma addLog_eq:
  "addLog b l m s =
     s\<lparr>logs := (logs s)(b \<mapsto> (if length (getLogs b s) < 1000
                      then getLogs b s @ [\<lparr>level = l, message = m\<rparr>]
                      else tl (getLogs b s) @ [\<lparr>level = l, message = m\<rparr>])),
       emitted := emitted s @ [(b, \<lparr>level = l, message = m\<rparr>)]\<rparr>"
  by (cases "getLogs b s") (auto simp add: addLog_def logStorage_addLog_def Let_def)

lemma updateBotStatus_fields [simp]:
  "runningBots (updateBotStatus b st p s) = runningBots s"
  "healthCheckData (updateBotStatus b st p s) = healthCheckData s"
  "retryData (updateBotStatus b st p s) = retryData s"
  "procs (updateBotStatus b st p s) = procs s"
  "nextHandle (updateBotStatus b st p s) = nextHandle s"
  "timers (updateBotStatus b st p s) = timers s"
  "nextTimer (updateBotStatus b st p s) = nextTimer s"
  "logs (updateBotStatus b st p s) = logs s"
  "emitted (updateBotStatus b st p s) = emitted s"
  "now (updateBotStatus b st p s) = now s"
  by (simp_all add: updateBotStatus_def split: option.splits)

lemma updateBotStatus_status:
  "storage s b = Some bt \<Longrightarrow>
   map_option status (storage (updateBotStatus b st p s) b) = Some st"
  by (simp add: updateBotStatus_def)

lemma updateBotStatus_absent:
  "storage s b = None \<Longrightarrow> updateBotStatus b st p s = s"
  by (simp add: updateBotStatus_def)

lemma updateBotStatus_present:
  "(storage (updateBotStatus b st p s) b = None) = (storage s b = None)"
  by (simp add: updateBotStatus_def split: option.splits)

lemma updateBotStatus_storage_cong:
  "storage s' = storage s \<Longrightarrow> now s' = now s \<Longrightarrow>
   storage (updateBotStatus b st p s') = storage (updateBotStatus b st p s)"
  by (simp add: updateBotStatus_def split: option.splits)

lemma clearTimeout_fields [simp]:
  "runningBots (clearTimeout h s) = runningBots s"
  "healthCheckData (clearTimeout h s) = healthCheckData s"
  "retryData (clearTimeout h s) = retryData s"
  "procs (clearTimeout h s) = procs s"
  "nextHandle (clearTimeout h s) = nextHandle s"
  "timers (clearTimeout h s) = (timers s)(h := None)"
  "nextTimer (clearTimeout h s) = nextTimer s"
  "storage (clearTimeout h s) = storage s"
  "logs (clearTimeout h s) = logs s"
  "emitted (clearTimeout h s) = emitted s"
  "now (clearTimeout h s) = now s"
  by (simp_all add: clearTimeout_def)

lemma setTimeout_fields [simp]:
  "fst (setTimeout k d s) = nextTimer s"
  "runningBots (snd (setTimeout k d s)) = runningBots s"
  "healthCheckData (snd (setTimeout k d s)) = healthCheckData s"
  "retryData (snd (setTimeout k d s)) = retryData s"
  "procs (snd (setTimeout k d s)) = procs s"
  "nextHandle (snd (setTimeout k d s)) = nextHandle s"
  "timers (snd (setTimeout k d s)) = (timers s)(nextTimer s \<mapsto> (k, d))"
  "nextTimer (snd (setTimeout k d s)) = Suc (nextTimer s)"
  "storage (snd (setTimeout k d s)) = storage s"
  "logs (snd (setTimeout k d s)) = logs s"
  "emitted (snd (setTimeout k d s)) = emitted s"
  "now (snd (setTimeout k d s)) = now s"
  by (simp_all add: setTimeout_def)

lemma updChild_fields [simp]:
  "runningBots (updChild h f s) = runningBots s"
  "healthCheckData (updChild h f s) = healthCheckData s"
  "retryData (updChild h f s) = retryData s"
  "nextHandle (updChild h f s) = nextHandle s"
  "timers (updChild h f s) = timers s"
  "nextTimer (updChild h f s) = nextTimer s"
  "storage (updChild h f s) = storage s"
  "logs (updChild h f s) = logs s"
  "emitted (updChild h f s) = emitted s"
  "now (updChild h f s) = now s"
  by (simp_all add: updChild_def split: option.splits)

lemma updChild_procs:
  "procs (updChild h f s) h' = (if h' = h then map_option f (procs s h) else procs s h')"
  by (simp add: updChild_def split: option.splits)

lemma setStopCtx_fields [simp]:
  "runningBots (setStopCtx h ctx s) = runningBots s"
  "healthCheckData (setStopCtx h ctx s) = healthCheckData s"
  "retryData (setStopCtx h ctx s) = retryData s"
  "nextHandle (setStopCtx h ctx s) = nextHandle s"
  "timers (setStopCtx h ctx s) = timers s"
  "nextTimer (setStopCtx h ctx s) = nextTimer s"
  "storage (setStopCtx h ctx s) = storage s"
  "logs (setStopCtx h ctx s) = logs s"
  "emitted (setStopCtx h ctx s) = emitted s"
  "now (setStopCtx h ctx s) = now s"
  by (simp_all add: setStopCtx_def)

lemma setStopCtx_procs:
  "procs (setStopCtx h ctx s) h' =
   (if h' = h then map_option (\<lambda>c. c\<lparr>stopping := Some ctx\<rparr>) (procs s h) else procs s h')"
  by (simp add: setStopCtx_def updChild_procs)

lemma errorHead_frame [simp]:
  "retryData (errorHead b s) = retryData s"
  "procs (errorHead b s) = procs s"
  "nextTimer (errorHead b s) = nextTimer s"
  "storage (errorHead b s) = storage s"
  "logs (errorHead b s) = logs s"
  "emitted (errorHead b s) = emitted s"
  "now (errorHead b s) = now s"
  by (simp_all add: errorHead_def Let_def split: option.splits)


lemma errorTail_frame [simp]:
  "runningBots (errorTail b msg s) = runningBots s"
  "healthCheckData (errorTail b msg s) = healthCheckData s"
  "retryData (errorTail b msg s) = retryData s"
  "procs (errorTail b msg s) = procs s"
  "timers (errorTail b msg s) = timers s"
  "nextTimer (errorTail b msg s) = nextTimer s"
  "now (errorTail b msg s) = now s"
  by (simp_all add: errorTail_def)

lemma errorSettles_frame [simp]:
  "runningBots (errorSettles h out s) = runningBots s"
  "healthCheckData (errorSettles h out s) = healthCheckData s"
  "retryData (errorSettles h out s) = retryData s"
  "procs (errorSettles h out s) = procs s"
  "timers (errorSettles h out s) = timers s"
  "nextTimer (errorSettles h out s) = nextTimer s"
  "now (errorSettles h out s) = now s"
  by (simp_all add: errorSettles_def split: kill_outcome.splits option.splits)

lemma errorSettles_Delivered [simp]: "errorSettles h Delivered s = s"
  by (simp add: errorSettles_def)

lemma stopBot_onError_frame [simp]:
  "retryData (stopBot_onError h msg s) = retryData s"
  "timers (stopBot_onError h msg s) = timers s"
  "nextTimer (stopBot_onError h msg s) = nextTimer s"
  by (simp_all add: stopBot_onError_def split: option.splits)

lemma emitError_frame [simp]:
  "retryData (emitError h msg s) = retryData s"
  "nextTimer (emitError h msg s) = nextTimer s"
  by (simp_all add: emitError_def Let_def split: option.splits)


lemma kill_frame [simp]:
  "retryData (snd (kill h sig out s)) = retryData s"
  "nextTimer (snd (kill h sig out s)) = nextTimer s"
  by (simp_all add: kill_def Let_def split: kill_outcome.splits)


subsection \<open>The retry scheduler and the exit listener\<close>

lemma scheduleSmartRetry_frame [simp]:
  "runningBots (scheduleSmartRetry rnd b s) = runningBots s"
  "healthCheckData (scheduleSmartRetry rnd b s) = healthCheckData s"
  "procs (scheduleSmartRetry rnd b s) = procs s"
  "storage (scheduleSmartRetry rnd b s) = storage s"
  "now (scheduleSmartRetry rnd b s) = now s"
  by (simp_all add: scheduleSmartRetry_def Let_def split_beta split: option.splits)



lemma scheduleSmartRetry_fresh:
  assumes "retryData s b = None"
  shows "retryData (scheduleSmartRetry rnd b s) b =
           Some \<lparr>attempts = 1, lastAttempt = now s,
                 nextRetryAt = Some (integer_part (fl (of_int (now s) + fl (2000 + fl (rnd * 1000))))),
                 retryTimeoutHandle = Some (nextTimer s)\<rparr>"
    and "timers (scheduleSmartRetry rnd b s) =
           (timers s)(nextTimer s \<mapsto> (RetryTimer b 1, fl (2000 + fl (rnd * 1000))))"
    and "nextTimer (scheduleSmartRetry rnd b s) = Suc (nextTimer s)"
  using assms
  by (simp_all add: scheduleSmartRetry_def Let_def MAX_RETRY_ATTEMPTS_def BASE_RETRY_DELAY_def
      split_beta fl_one fl_numeral)




lemma exitHead_fields [simp]:
  "runningBots (exitHead b s) = (runningBots s)(b := None)"
  "healthCheckData (exitHead b s) = (healthCheckData s)(b := None)"
  "retryData (exitHead b s) = retryData s"
  "procs (exitHead b s) = procs s"
  "nextHandle (exitHead b s) = nextHandle s"
  "timers (exitHead b s) = timers s"
  "nextTimer (exitHead b s) = nextTimer s"
  "storage (exitHead b s) = storage s"
  "logs (exitHead b s) = logs s"
  "emitted (exitHead b s) = emitted s"
  "now (exitHead b s) = now s"
  by (simp_all add: exitHead_def)

lemma exitLogged_fields [simp]:
  "runningBots (exitLogged b code signal s) = runningBots s"
  "healthCheckData (exitLogged b code signal s) = healthCheckData s"
  "retryData (exitLogged b code signal s) = retryData s"
  "procs (exitLogged b code signal s) = procs s"
  "nextHandle (exitLogged b code signal s) = nextHandle s"
  "timers (exitLogged b code signal s) = timers s"
  "nextTimer (exitLogged b code signal s) = nextTimer s"
  "now (exitLogged b code signal s) = now s"
  by (simp_all add: exitLogged_def Let_def split: option.splits)

lemma exitLogged_storage:
  "storage (exitLogged b code signal s) =
   storage (updateBotStatus b (if code = Some 0 then S_stopped else S_error) None s)"
  by (simp add: exitLogged_def Let_def split: option.splits)

lemma exitTail_eq:
  "exitTail rnd b code signal s =
     (if code \<noteq> Some 0 \<and> signal \<noteq> Some ''SIGTERM''
      then scheduleSmartRetry rnd b (exitLogged b code signal s)
      else exitLogged b code signal s)"
  by (simp add: exitTail_def Let_def)

lemma exitTail_fields [simp]:
  "runningBots (exitTail rnd b code signal s) = runningBots s"
  "healthCheckData (exitTail rnd b code signal s) = healthCheckData s"
  "procs (exitTail rnd b code signal s) = procs s"
  "now (exitTail rnd b code signal s) = now s"
  by (simp_all add: exitTail_eq)

lemma exitTail_storage:
  "storage (exitTail rnd b code signal s) =
   storage (updateBotStatus b (if code = Some 0 then S_stopped else S_error) None s)"
  by (simp add: exitTail_eq exitLogged_storage)

lemma exitRecorded_fields [simp]:
  "runningBots (exitRecorded b code signal s) = (runningBots s)(b := None)"
  "healthCheckData (exitRecorded b code signal s) = (healthCheckData s)(b := None)"
  "retryData (exitRecorded b code signal s) = retryData s"
  "procs (exitRecorded b code signal s) = procs s"
  "timers (exitRecorded b code signal s) = timers s"
  "nextTimer (exitRecorded b code signal s) = nextTimer s"
  "now (exitRecorded b code signal s) = now s"
  by (simp_all add: exitRecorded_def)

lemma exitRecorded_storage:
  "storage (exitRecorded b code signal s) =
   storage (updateBotStatus b (if code = Some 0 then S_stopped else S_error) None s)"
  unfolding exitRecorded_def exitLogged_storage
  by (rule updateBotStatus_storage_cong) simp_all


lemma stopBot_onExit_frame [simp]:
  "runningBots (stopBot_onExit h code signal s) = runningBots s"
  "healthCheckData (stopBot_onExit h code signal s) = healthCheckData s"
  "retryData (stopBot_onExit h code signal s) = retryData s"
  "timers (stopBot_onExit h code signal s) = timers s"
  "nextTimer (stopBot_onExit h code signal s) = nextTimer s"
  "storage (stopBot_onExit h code signal s) = storage s"
  "now (stopBot_onExit h code signal s) = now s"
  by (simp_all add: stopBot_onExit_def Let_def split: option.splits)

lemma childExit_storage:
  assumes "procs s h = Some c"
  shows "storage (childExit rnd h code signal s) =
   storage (updateBotStatus (owner c) (if code = Some 0 then S_stopped else S_error) None s)"
proof -
  define s2 where "s2 = (case stopCtx h (exitHead (owner c) s) of
                       None \<Rightarrow> exitHead (owner c) s
                     | Some ctx \<Rightarrow>
                         if onExitAttached ctx
                         then stopBot_onExit h code signal (exitHead (owner c) s)
                         else exitHead (owner c) s)"
  define s3 where "s3 = (case Option.bind (stopCtx h s2) forceKillTimeout of
                       None \<Rightarrow> s2
                     | Some t \<Rightarrow> clearTimeout t s2)"
  have "storage s2 = storage s" and "now s2 = now s"
    by (simp_all add: s2_def split: option.splits)
  then have st: "storage s3 = storage s" and nw: "now s3 = now s"
    by (simp_all add: s3_def split: option.splits)
  have ce: "childExit rnd h code signal s = exitTail rnd (owner c) code signal s3"
    using assms unfolding childExit_def Let_def s3_def s2_def by simp
  show ?thesis
    unfolding ce exitTail_storage by (rule updateBotStatus_storage_cong [OF st nw])
qed

subsection \<open>Stop and the exit of the child\<close>





lemma updateBotStatus_storage_frame:
  "storage (updateBotStatus b st p (s\<lparr>runningBots := r\<rparr>)) = storage (updateBotStatus b st p s)"
  "storage (updateBotStatus b st p (addLog b' l m s)) = storage (updateBotStatus b st p s)"
  by (rule updateBotStatus_storage_cong; simp)+

lemma stopBot_Delivered_eq:
  assumes "runningBots s b = Some h" and "procs s h = Some c"
  shows "stopBot Delivered b s =
           (None,
            (updateBotStatus b S_stopped None
               ((addLog b L_info ''Stopping bot...'' s)\<lparr>runningBots := (runningBots s)(b := None)\<rparr>))
              \<lparr>timers := (timers s)(nextTimer s \<mapsto> (ForceKillTimer b h, 5000)),
               nextTimer := Suc (nextTimer s),
               procs := (procs s)(h \<mapsto>
                  c\<lparr>killCalls := killCalls c @ [(''SIGTERM'', Delivered)],
                    killed := True,
                    stopping := Some \<lparr>stopBotId = b, isResolved = False, resolvedWith = None,
                                      forceKillTimeout = Some (nextTimer s),
                                      onExitAttached = True, onErrorAttached = True\<rparr>\<rparr>)\<rparr>)"
proof -
  let ?s3 = "updateBotStatus b S_stopped None
               ((addLog b L_info ''Stopping bot...'' s)\<lparr>runningBots := (runningBots s)(b := None)\<rparr>)"
  let ?ctx = "\<lparr>stopBotId = b, isResolved = False, resolvedWith = None, forceKillTimeout = None,
                onExitAttached = True, onErrorAttached = True\<rparr>"
  let ?c5 = "c\<lparr>stopping := Some ?ctx, killCalls := killCalls c @ [(''SIGTERM'', Delivered)],
              killed := True\<rparr>"
  have p3: "procs ?s3 h = Some c"
    using assms(2) by simp
  have k: "kill h ''SIGTERM'' Delivered (setStopCtx h ?ctx ?s3) =
             (None, ?s3\<lparr>procs := (procs s)(h \<mapsto> ?c5)\<rparr>)"
    using p3 by (simp add: kill_def setStopCtx_def updChild_def Let_def)
  show ?thesis
    using assms(1)
    by (simp add: stopBot_def Let_def k setTimeout_def updChild_def stopCtx_def)
qed

lemma stopBot_Delivered:
  assumes "runningBots s b = Some h" and "procs s h = Some c"
  shows "fst (stopBot Delivered b s) = None"
    and "storage (snd (stopBot Delivered b s)) = storage (updateBotStatus b S_stopped None s)"
    and "procs (snd (stopBot Delivered b s)) =
           (procs s)(h \<mapsto> c\<lparr>killCalls := killCalls c @ [(''SIGTERM'', Delivered)],
              killed := True,
              stopping := Some \<lparr>stopBotId = b, isResolved = False, resolvedWith = None,
                                forceKillTimeout = Some (nextTimer s), onExitAttached = True,
                                onErrorAttached = True\<rparr>\<rparr>)"
    and "timers (snd (stopBot Delivered b s)) = (timers s)(nextTimer s \<mapsto> (ForceKillTimer b h, 5000))"
    and "runningBots (snd (stopBot Delivered b s)) = (runningBots s)(b := None)"
    and "retryData (snd (stopBot Delivered b s)) = retryData s"
    and "healthCheckData (snd (stopBot Delivered b s)) = healthCheckData s"
    and "emitted (snd (stopBot Delivered b s)) =
           emitted s @ [(b, \<lparr>level = L_info, message = ''Stopping bot...''\<rparr>)]"
  by (simp_all add: stopBot_Delivered_eq [OF assms] updateBotStatus_storage_frame)

lemma childExit_after_stop:
  assumes "procs s h = Some c"
      and "stopping c = Some ctx" and "onExitAttached ctx" and "\<not> isResolved ctx"
      and "forceKillTimeout ctx = Some t"
      and "signal = Some ''SIGTERM''"
  shows "Option.bind (stopCtx h (childExit rnd h code signal s)) resolvedWith = Some True"
    and "timers (childExit rnd h code signal s) = (timers s)(t := None)"
    and "retryData (childExit rnd h code signal s) = retryData s"
  using assms
  by (simp_all add: childExit_def Let_def stopCtx_def exitTail_eq stopBot_onExit_def
      setStopCtx_def updChild_def)

subsection \<open>Health monitor\<close>

lemma handleHealthCheckFailure_threshold:
  assumes "healthCheckData s botId = Some hi"
      and "storage s botId = Some bt"
      and "MAX_CONSECUTIVE_FAILURES \<le> consecutiveFailures hi + 1"
  shows "map_option status (storage (handleHealthCheckFailure botId reason s) botId) = Some S_unresponsive"
    and "healthCheckData (handleHealthCheckFailure botId reason s) botId =
           Some (hi\<lparr>timeoutHandle := None, isWaitingForResponse := False,
                     consecutiveFailures := consecutiveFailures hi + 1\<rparr>)"
  using assms
  by (simp_all add: handleHealthCheckFailure_def Let_def updateBotStatus_def split: option.splits)

lemma handleHealthCheckSuccess_accepted:
  assumes "healthCheckData s botId = Some hi"
      and "healthCheckId hi = Some tok"
      and "storage s botId = Some bt"
      and "status bt = S_unresponsive"
  shows "map_option status (storage (handleHealthCheckSuccess botId tok s) botId) = Some S_running"
    and "map_option consecutiveFailures (healthCheckData (handleHealthCheckSuccess botId tok s) botId) = Some 0"
  using assms
  by (simp_all add: handleHealthCheckSuccess_def Let_def updateBotStatus_def split: option.splits)

subsection \<open>The concrete run, evaluated\<close>

lemma started_state_eq:
  "started_state =
     \<lparr>runningBots = [''bot-1'' \<mapsto> 0], healthCheckData = Map.empty, retryData = Map.empty,
      procs = [0 \<mapsto> child0],
      nextHandle = 1,
      timers = [0 \<mapsto> (MarkRunningTimer ''bot-1'' 0, 1000)], nextTimer = 1,
      storage = [''bot-1'' \<mapsto> bot1\<lparr>status := S_starting, lastActivity := 1000\<rparr>],
      logs = [''bot-1'' \<mapsto>
        [\<lparr>level = L_info, message = ''Starting bot: demo''\<rparr>]],
      emitted =
        [(''bot-1'', \<lparr>level = L_info, message = ''Starting bot: demo''\<rparr>)],
      now = 1000\<rparr>"
  by (simp add: started_state_def startBot_def initial_state_def env_js_def bot1_def child0_def
      updateBotStatus_def addLog_def logStorage_addLog_def getLogs_def spawnBot_def setTimeout_def Let_def)

lemma probed_state_eq:
  "probed_state =
     \<lparr>runningBots = [''bot-1'' \<mapsto> 0],
      healthCheckData = [''bot-1'' \<mapsto> \<lparr>lastCheck = 1000, lastResponse = None,
          consecutiveFailures = 0, isWaitingForResponse = True,
          healthCheckId = Some ''hc_1000_k3x9'', timeoutHandle = Some 1\<rparr>],
      retryData = Map.empty,
      procs = [0 \<mapsto> child0\<lparr>stdinWritten := [''__HEALTH_CHECK__:hc_1000_k3x9'' @ [CHR 10]]\<rparr>],
      nextHandle = 1,
      timers = [0 \<mapsto> (MarkRunningTimer ''bot-1'' 0, 1000),
                1 \<mapsto> (HealthTimer ''bot-1'' ''hc_1000_k3x9'', 30000)], nextTimer = 2,
      storage = [''bot-1'' \<mapsto> bot1\<lparr>status := S_starting, lastActivity := 1000\<rparr>],
      logs = [''bot-1'' \<mapsto>
        [\<lparr>level = L_info, message = ''Starting bot: demo''\<rparr>,
         \<lparr>level = L_debug, message = ''Health check sent: hc_1000_k3x9''\<rparr>]],
      emitted =
        [(''bot-1'', \<lparr>level = L_info, message = ''Starting bot: demo''\<rparr>),
         (''bot-1'', \<lparr>level = L_debug, message = ''Health check sent: hc_1000_k3x9''\<rparr>)],
      now = 1000\<rparr>"
  by (simp add: probed_state_def started_state_eq performBotHealthCheck_def child0_def
      HEALTH_CHECK_TIMEOUT_def addLog_def logStorage_addLog_def getLogs_def setTimeout_def Let_def)

lemma crashed_state_eq:
  "crashed_state =
     \<lparr>runningBots = Map.empty, healthCheckData = Map.empty,
      retryData = [''bot-1'' \<mapsto> \<lparr>attempts = 1, lastAttempt = 1000, nextRetryAt = Some 3500,
                                  retryTimeoutHandle = Some 1\<rparr>],
      procs = [0 \<mapsto> child0],
      nextHandle = 1,
      timers = [0 \<mapsto> (MarkRunningTimer ''bot-1'' 0, 1000), 1 \<mapsto> (RetryTimer ''bot-1'' 1, 2500)],
      nextTimer = 2,
      storage = [''bot-1'' \<mapsto> bot1\<lparr>status := S_error, lastActivity := 1000\<rparr>],
      logs = [''bot-1'' \<mapsto>
        [\<lparr>level = L_info, message = ''Starting bot: demo''\<rparr>,
         \<lparr>level = L_info, message = ''Bot process exited with code: 1''\<rparr>,
         \<lparr>level = L_info, message = ''Scheduling restart attempt 1/5 in 3s''\<rparr>]],
      emitted =
        [(''bot-1'', \<lparr>level = L_info, message = ''Starting bot: demo''\<rparr>),
         (''bot-1'', \<lparr>level = L_info, message = ''Bot process exited with code: 1''\<rparr>),
         (''bot-1'', \<lparr>level = L_info, message = ''Scheduling restart attempt 1/5 in 3s''\<rparr>)],
      now = 1000\<rparr>"
  by (simp add: crashed_state_def started_state_eq childExit_def exitTail_def exitHead_def
      exitLogged_def scheduleSmartRetry_def stopCtx_def string_of_code_def child0_def
      string_of_nat_digit MAX_RETRY_ATTEMPTS_def BASE_RETRY_DELAY_def
      fl_one fl_numeral fl_5_2 Math_round_def integer_part_def
      updateBotStatus_def addLog_def logStorage_addLog_def getLogs_def setTimeout_def Let_def bot1_def)

lemma restarted_state_eq:
  "restarted_state =
     \<lparr>runningBots = [''bot-1'' \<mapsto> 1], healthCheckData = Map.empty,
      retryData = [''bot-1'' \<mapsto> \<lparr>attempts = 1, lastAttempt = 1000, nextRetryAt = Some 3500,
                                  retryTimeoutHandle = Some 1\<rparr>],
      procs = [0 \<mapsto> child0, 1 \<mapsto> child0],
      nextHandle = 2,
      timers = [0 \<mapsto> (MarkRunningTimer ''bot-1'' 0, 1000), 1 \<mapsto> (RetryTimer ''bot-1'' 1, 2500),
                2 \<mapsto> (MarkRunningTimer ''bot-1'' 1, 1000)],
      nextTimer = 3,
      storage = [''bot-1'' \<mapsto> bot1\<lparr>status := S_starting, lastActivity := 1000\<rparr>],
      logs = [''bot-1'' \<mapsto>
        [\<lparr>level = L_info, message = ''Starting bot: demo''\<rparr>,
         \<lparr>level = L_info, message = ''Bot process exited with code: 1''\<rparr>,
         \<lparr>level = L_info, message = ''Scheduling restart attempt 1/5 in 3s''\<rparr>,
         \<lparr>level = L_info, message = ''Starting bot: demo''\<rparr>]],
      emitted =
        [(''bot-1'', \<lparr>level = L_info, message = ''Starting bot: demo''\<rparr>),
         (''bot-1'', \<lparr>level = L_info, message = ''Bot process exited with code: 1''\<rparr>),
         (''bot-1'', \<lparr>level = L_info, message = ''Scheduling restart attempt 1/5 in 3s''\<rparr>),
         (''bot-1'', \<lparr>level = L_info, message = ''Starting bot: demo''\<rparr>)],
      now = 1000\<rparr>"
  by (simp add: restarted_state_def crashed_state_eq startBot_def env_js_def bot1_def child0_def
      updateBotStatus_def addLog_def logStorage_addLog_def getLogs_def spawnBot_def setTimeout_def Let_def)

lemma two_failures_state_fields:
  "healthCheckData two_failures_state ''bot-1'' =
     Some \<lparr>lastCheck = 121000, lastResponse = None, consecutiveFailures = 2,
           isWaitingForResponse = True, healthCheckId = Some ''hc_121000_c1d2'',
           timeoutHandle = Some 3\<rparr>"
  "storage two_failures_state ''bot-1'' = Some (bot1\<lparr>status := S_starting, lastActivity := 1000\<rparr>)"
  by (simp_all add: two_failures_state_def probed_state_eq performBotHealthCheck_def
      handleHealthCheckFailure_def child0_def MAX_CONSECUTIVE_FAILURES_def clockAdvances_def
      HEALTH_CHECK_TIMEOUT_def addLog_def logStorage_addLog_def getLogs_def setTimeout_def
      clearTimeout_def Let_def)

lemma unresponsive_probed_state_fields:
  "healthCheckData unresponsive_probed_state ''bot-1'' =
     Some \<lparr>lastCheck = 181000, lastResponse = None, consecutiveFailures = 3,
           isWaitingForResponse = True, healthCheckId = Some ''hc_181000_e5f6'',
           timeoutHandle = Some 4\<rparr>"
  "storage unresponsive_probed_state ''bot-1'' =
     Some (bot1\<lparr>status := S_unresponsive, lastActivity := 151000\<rparr>)"
  by (simp_all add: unresponsive_probed_state_def two_failures_state_def probed_state_eq
      performBotHealthCheck_def handleHealthCheckFailure_def child0_def clockAdvances_def
      MAX_CONSECUTIVE_FAILURES_def updateBotStatus_def
      HEALTH_CHECK_TIMEOUT_def addLog_def logStorage_addLog_def getLogs_def setTimeout_def
      clearTimeout_def Let_def)

lemma stopping_state_eq:
  "stopping_state =
     \<lparr>runningBots = Map.empty, healthCheckData = Map.empty, retryData = Map.empty,
      procs = [0 \<mapsto> child0\<lparr>killed := True, killCalls := [(''SIGTERM'', Delivered)],
                 stopping := Some \<lparr>stopBotId = ''bot-1'', isResolved = False, resolvedWith = None,
                                   forceKillTimeout = Some 1, onExitAttached = True,
                                   onErrorAttached = True\<rparr>\<rparr>],
      nextHandle = 1,
      timers = [0 \<mapsto> (MarkRunningTimer ''bot-1'' 0, 1000),
                1 \<mapsto> (ForceKillTimer ''bot-1'' 0, 5000)], nextTimer = 2,
      storage = [''bot-1'' \<mapsto> bot1\<lparr>status := S_stopped, lastActivity := 1000\<rparr>],
      logs = [''bot-1'' \<mapsto>
        [\<lparr>level = L_info, message = ''Starting bot: demo''\<rparr>,
         \<lparr>level = L_info, message = ''Stopping bot...''\<rparr>]],
      emitted =
        [(''bot-1'', \<lparr>level = L_info, message = ''Starting bot: demo''\<rparr>),
         (''bot-1'', \<lparr>level = L_info, message = ''Stopping bot...''\<rparr>)],
      now = 1000\<rparr>"
proof -
  have l: "runningBots started_state ''bot-1'' = Some 0"
    by (simp add: started_state_eq)
  have p: "procs started_state 0 = Some child0"
    by (simp add: started_state_eq)
  show ?thesis
    unfolding stopping_state_def stopBot_Delivered_eq [OF l p]
    by (simp add: started_state_eq updateBotStatus_def addLog_def logStorage_addLog_def getLogs_def
        Let_def bot1_def child0_def)
qed

lemma restarted_stop_eq:
  "snd (stopBot Delivered ''bot-1'' restarted_state) =
     \<lparr>runningBots = Map.empty, healthCheckData = Map.empty,
      retryData = [''bot-1'' \<mapsto> \<lparr>attempts = 1, lastAttempt = 1000, nextRetryAt = Some 3500,
                                  retryTimeoutHandle = Some 1\<rparr>],
      procs = [0 \<mapsto> child0,
               1 \<mapsto> child0\<lparr>killed := True, killCalls := [(''SIGTERM'', Delivered)],
                 stopping := Some \<lparr>stopBotId = ''bot-1'', isResolved = False, resolvedWith = None,
                                   forceKillTimeout = Some 3, onExitAttached = True,
                                   onErrorAttached = True\<rparr>\<rparr>],
      nextHandle = 2,
      timers = [0 \<mapsto> (MarkRunningTimer ''bot-1'' 0, 1000), 1 \<mapsto> (RetryTimer ''bot-1'' 1, 2500),
                2 \<mapsto> (MarkRunningTimer ''bot-1'' 1, 1000), 3 \<mapsto> (ForceKillTimer ''bot-1'' 1, 5000)],
      nextTimer = 4,
      storage = [''bot-1'' \<mapsto> bot1\<lparr>status := S_stopped, lastActivity := 1000\<rparr>],
      logs = [''bot-1'' \<mapsto>
        [\<lparr>level = L_info, message = ''Starting bot: demo''\<rparr>,
         \<lparr>level = L_info, message = ''Bot process exited with code: 1''\<rparr>,
         \<lparr>level = L_info, message = ''Scheduling restart attempt 1/5 in 3s''\<rparr>,
         \<lparr>level = L_info, message = ''Starting bot: demo''\<rparr>,
         \<lparr>level = L_info, message = ''Stopping bot...''\<rparr>]],
      emitted =
        [(''bot-1'', \<lparr>level = L_info, message = ''Starting bot: demo''\<rparr>),
         (''bot-1'', \<lparr>level = L_info, message = ''Bot process exited with code: 1''\<rparr>),
         (''bot-1'', \<lparr>level = L_info, message = ''Scheduling restart attempt 1/5 in 3s''\<rparr>),
         (''bot-1'', \<lparr>level = L_info, message = ''Starting bot: demo''\<rparr>),
         (''bot-1'', \<lparr>level = L_info, message = ''Stopping bot...''\<rparr>)],
      now = 1000\<rparr>"
proof -
  have l: "runningBots restarted_state ''bot-1'' = Some 1"
    by (simp add: restarted_state_eq)
  have p: "procs restarted_state 1 = Some child0"
    by (simp add: restarted_state_eq)
  show ?thesis
    unfolding stopBot_Delivered_eq [OF l p]
    by (simp add: restarted_state_eq updateBotStatus_def addLog_def logStorage_addLog_def getLogs_def
        Let_def bot1_def child0_def)
qed

lemma stopped_again_state_eq:
  "stopped_again_state =
     \<lparr>runningBots = Map.empty, healthCheckData = Map.empty,
      retryData = [''bot-1'' \<mapsto> \<lparr>attempts = 1, lastAttempt = 1000, nextRetryAt = Some 3500,
                                  retryTimeoutHandle = Some 1\<rparr>],
      procs = [0 \<mapsto> child0,
               1 \<mapsto> child0\<lparr>killed := True, killCalls := [(''SIGTERM'', Delivered)],
                 stopping := Some \<lparr>stopBotId = ''bot-1'', isResolved = True, resolvedWith = Some True,
                                   forceKillTimeout = Some 3, onExitAttached = False,
                                   onErrorAttached = True\<rparr>\<rparr>],
      nextHandle = 2,
      timers = [0 \<mapsto> (MarkRunningTimer ''bot-1'' 0, 1000), 1 \<mapsto> (RetryTimer ''bot-1'' 1, 2500),
                2 \<mapsto> (MarkRunningTimer ''bot-1'' 1, 1000)],
      nextTimer = 4,
      storage = [''bot-1'' \<mapsto> bot1\<lparr>status := S_error, lastActivity := 1000\<rparr>],
      logs = [''bot-1'' \<mapsto>
        [\<lparr>level = L_info, message = ''Starting bot: demo''\<rparr>,
         \<lparr>level = L_info, message = ''Bot process exited with code: 1''\<rparr>,
         \<lparr>level = L_info, message = ''Scheduling restart attempt 1/5 in 3s''\<rparr>,
         \<lparr>level = L_info, message = ''Starting bot: demo''\<rparr>,
         \<lparr>level = L_info, message = ''Stopping bot...''\<rparr>,
         \<lparr>level = L_info, message = ''Bot stopped by signal: SIGTERM''\<rparr>,
         \<lparr>level = L_warn, message = ''Bot process terminated by signal: SIGTERM''\<rparr>]],
      emitted =
        [(''bot-1'', \<lparr>level = L_info, message = ''Starting bot: demo''\<rparr>),
         (''bot-1'', \<lparr>level = L_info, message = ''Bot process exited with code: 1''\<rparr>),
         (''bot-1'', \<lparr>level = L_info, message = ''Scheduling restart attempt 1/5 in 3s''\<rparr>),
         (''bot-1'', \<lparr>level = L_info, message = ''Starting bot: demo''\<rparr>),
         (''bot-1'', \<lparr>level = L_info, message = ''Stopping bot...''\<rparr>),
         (''bot-1'', \<lparr>level = L_info, message = ''Bot stopped by signal: SIGTERM''\<rparr>),
         (''bot-1'', \<lparr>level = L_warn, message = ''Bot process terminated by signal: SIGTERM''\<rparr>)],
      now = 1000\<rparr>"
  unfolding stopped_again_state_def restarted_stop_eq
  by (simp add: child0_def bot1_def childExit_def exitTail_def exitHead_def exitLogged_def
      stopBot_onExit_def clearTimeout_def stopCtx_def setStopCtx_def updChild_def
      updateBotStatus_def addLog_def logStorage_addLog_def getLogs_def Let_def)

subsection \<open>Persisted status after an exit\<close>

text \<open>
  Claim C4. For every process: after its child process exits (all \<open>exit\<close> listeners of
  the child have run), the persisted status is \<open>stopped\<close> when the exit code equals 0
  and \<open>error\<close> otherwise, that is for every nonzero code and also for the code \<open>null\<close>
  of a child ended by a signal.
\<close>

theorem exit_status_persisted:
  assumes "procs s h = Some c" and "storage s (owner c) = Some bt"
  shows "map_option status (storage (childExit rnd h code signal s) (owner c)) =
         Some (if code = Some 0 then S_stopped else S_error)"
  using assms by (simp only: childExit_storage updateBotStatus_status)

theorem exit_status_persisted_witness:
  "map_option status (storage (childExit (1 / 2) 0 (Some 0) None started_state) ''bot-1'') =
     Some S_stopped \<and>
   map_option status (storage (childExit (1 / 2) 0 (Some 3) None started_state) ''bot-1'') =
     Some S_error"
proof -
  have p: "procs started_state 0 = Some child0"
    by (simp add: started_state_eq)
  have st: "storage started_state (owner child0) =
            Some (bot1\<lparr>status := S_starting, lastActivity := 1000\<rparr>)"
    by (simp add: started_state_eq child0_def)
  have o: "owner child0 = ''bot-1''"
    by (simp add: child0_def)
  show ?thesis
    using exit_status_persisted [OF p st, of "1 / 2" "Some 0" None]
      exit_status_persisted [OF p st, of "1 / 2" "Some 3" None]
    by (simp add: o)
qed

subsection \<open>Stale health-check responses\<close>

text \<open>
  Claim C7. For every process with an outstanding health probe, a response whose token
  differs from the outstanding token is discarded: \<open>handleHealthCheckSuccess\<close> (and
  with it \<open>processHealthCheckResponse\<close> for a line carrying that token) returns the
  state it was given, so \<open>isWaitingForResponse\<close> stays set, \<open>consecutiveFailures\<close> is
  not reset, the timeout timer stays pending and the persisted status is not written.
\<close>

theorem stale_response_discarded:
  assumes "healthCheckData s botId = Some hi"
      and "isWaitingForResponse hi"
      and "healthCheckId hi = Some tok"
      and "checkId \<noteq> tok"
  shows "handleHealthCheckSuccess botId checkId s = s \<and>
         healthCheckData (handleHealthCheckSuccess botId checkId s) botId = Some hi \<and>
         timers (handleHealthCheckSuccess botId checkId s) = timers s \<and>
         storage (handleHealthCheckSuccess botId checkId s) = storage s \<and>
         (checkId \<noteq> [] \<longrightarrow> processHealthCheckResponse botId (Some checkId) s = s)"
  using assms by (simp add: handleHealthCheckSuccess_def processHealthCheckResponse_def)

theorem stale_response_discarded_witness:
  "handleHealthCheckSuccess ''bot-1'' ''hc_940_q7aa'' probed_state = probed_state \<and>
   processHealthCheckResponse ''bot-1'' (Some ''hc_940_q7aa'') probed_state = probed_state \<and>
   map_option isWaitingForResponse (healthCheckData probed_state ''bot-1'') = Some True \<and>
   timers probed_state 1 = Some (HealthTimer ''bot-1'' ''hc_1000_k3x9'', 30000)"
proof -
  let ?hi = "\<lparr>lastCheck = 1000, lastResponse = None, consecutiveFailures = 0,
               isWaitingForResponse = True, healthCheckId = Some ''hc_1000_k3x9'',
               timeoutHandle = Some 1\<rparr>"
  have h: "healthCheckData probed_state ''bot-1'' = Some ?hi"
    by (simp add: probed_state_eq)
  have w: "isWaitingForResponse ?hi" by simp
  have i: "healthCheckId ?hi = Some ''hc_1000_k3x9''" by simp
  have d: "''hc_940_q7aa'' \<noteq> ''hc_1000_k3x9''" by simp
  have t: "timers probed_state 1 = Some (HealthTimer ''bot-1'' ''hc_1000_k3x9'', 30000)"
    by (simp add: probed_state_eq)
  show ?thesis
    using stale_response_discarded [OF h w i d] h t by simp
qed

subsection \<open>When the retry scheduler is engaged\<close>



text \<open>
  The test of the exit listener reads the exit code and the signal, not whether
  \<open>stopBot\<close> was called. When the child of \<open>bot-1\<close> answers the SIGTERM of \<open>stopBot\<close> by
  exiting with code 2 and no signal (a handler of SIGTERM that ends in
  \<open>process.exit(2)\<close>), the exit is none of the two above, and the retry scheduler arms
  a timer.
\<close>

lemma stop_then_exit_code_arms_retry:
  "fst (stopBot Delivered ''bot-1'' started_state) = None \<and>
   map_option attempts (retryData (childExit (1 / 2) 0 (Some 2) None stopping_state) ''bot-1'') =
     Some 1 \<and>
   timers (childExit (1 / 2) 0 (Some 2) None stopping_state) 2 =
     Some (RetryTimer ''bot-1'' 1, 2500)"
proof -
  have l: "runningBots started_state ''bot-1'' = Some 0"
    by (simp add: started_state_eq)
  have p: "procs started_state 0 = Some child0"
    by (simp add: started_state_eq)
  have a: "fst (stopBot Delivered ''bot-1'' started_state) = None"
    by (rule stopBot_Delivered(1) [OF l p])
  let ?s3 = "exitLogged ''bot-1'' (Some 2) None
               (clearTimeout 1 (stopBot_onExit 0 (Some 2) None (exitHead ''bot-1'' stopping_state)))"
  have e: "childExit (1 / 2) 0 (Some 2) None stopping_state = scheduleSmartRetry (1 / 2) ''bot-1'' ?s3"
    by (simp add: childExit_def exitTail_eq stopCtx_def stopBot_onExit_def
        setStopCtx_def updChild_def Let_def stopping_state_eq child0_def)
  have n: "retryData ?s3 ''bot-1'' = None"
    by (simp add: stopping_state_eq)
  have t: "nextTimer ?s3 = 2"
    by (simp add: stopping_state_eq)
  have r: "map_option attempts (retryData (scheduleSmartRetry (1 / 2) ''bot-1'' ?s3) ''bot-1'') = Some 1"
    unfolding scheduleSmartRetry_fresh(1) [OF n] by simp
  have d: "fl (2000 + fl (1 / 2 * 1000)) = 2500"
    by (simp add: fl_numeral)
  have x: "timers (scheduleSmartRetry (1 / 2) ''bot-1'' ?s3) 2 = Some (RetryTimer ''bot-1'' 1, 2500)"
    unfolding scheduleSmartRetry_fresh(2) [OF n] t d by simp
  show ?thesis
    unfolding e using a r x by (intro conjI)
qed

subsection \<open>Backoff of the retry scheduler\<close>




subsection \<open>Stopping an id that is not live\<close>

text \<open>
  Claim C5, as stated, fails: \<open>stopBot\<close> of an id that is not live hands a warning to
  the log before it returns false. \<open>bot-1\<close> had no log file, and has one with that
  entry after the call.
\<close>

theorem stop_not_live_logs_counterexample:
  "runningBots initial_state ''bot-1'' = None \<and>
   logs initial_state ''bot-1'' = None \<and>
   logs (snd (stopBot Delivered ''bot-1'' initial_state)) ''bot-1'' =
     Some [\<lparr>level = L_warn, message = ''Bot is not running''\<rparr>] \<and>
   logs (snd (stopBot Delivered ''bot-1'' initial_state)) \<noteq> logs initial_state"
proof -
  have a: "logs (snd (stopBot Delivered ''bot-1'' initial_state)) ''bot-1'' =
     Some [\<lparr>level = L_warn, message = ''Bot is not running''\<rparr>]"
    by (simp add: stopBot_def initial_state_def addLog_logs getLogs_def)
  have b: "logs initial_state ''bot-1'' = None"
    by (simp add: initial_state_def)
  from a b have "logs (snd (stopBot Delivered ''bot-1'' initial_state)) \<noteq> logs initial_state"
    by (metis option.distinct(1))
  with a b show ?thesis
    by (simp add: initial_state_def)
qed

text \<open>
  Claim C5, amended. For every id whose handle is not in the live table, \<open>stopBot\<close>
  returns false and its only effect is that of \<open>addLog\<close> for the entry
  \<open>Bot is not running\<close> (level warn): the entry is appended to the log file of the
  id, which keeps its last 1000 entries (the oldest entry is dropped when the file
  held 1000), and it is emitted as a \<open>log\<close> event. No persisted status is written, no
  signal is sent, no table and no timer changes.
\<close>

theorem stop_not_live:
  assumes "runningBots s botId = None"
  shows "stopBot out botId s = (Some False, addLog botId L_warn ''Bot is not running'' s) \<and>
         snd (stopBot out botId s) =
           s\<lparr>logs := (logs s)(botId \<mapsto>
                 (if length (getLogs botId s) < 1000
                  then getLogs botId s @ [\<lparr>level = L_warn, message = ''Bot is not running''\<rparr>]
                  else tl (getLogs botId s) @ [\<lparr>level = L_warn, message = ''Bot is not running''\<rparr>])),
             emitted := emitted s @ [(botId, \<lparr>level = L_warn, message = ''Bot is not running''\<rparr>)]\<rparr> \<and>
         storage (snd (stopBot out botId s)) = storage s \<and>
         procs (snd (stopBot out botId s)) = procs s \<and>
         runningBots (snd (stopBot out botId s)) = runningBots s \<and>
         healthCheckData (snd (stopBot out botId s)) = healthCheckData s \<and>
         retryData (snd (stopBot out botId s)) = retryData s \<and>
         timers (snd (stopBot out botId s)) = timers s"
proof -
  have e: "stopBot out botId s = (Some False, addLog botId L_warn ''Bot is not running'' s)"
    using assms by (simp add: stopBot_def)
  show ?thesis
    unfolding e by (simp add: addLog_eq [symmetric])
qed

theorem stop_not_live_witness:
  "fst (stopBot Delivered ''bot-1'' initial_state) = Some False \<and>
   storage (snd (stopBot Delivered ''bot-1'' initial_state)) = storage initial_state \<and>
   procs (snd (stopBot Delivered ''bot-1'' initial_state)) = procs initial_state \<and>
   logs (snd (stopBot Delivered ''bot-1'' initial_state)) ''bot-1'' =
     Some [\<lparr>level = L_warn, message = ''Bot is not running''\<rparr>] \<and>
   logs (snd (stopBot Delivered ''bot-1''
          (initial_state\<lparr>logs := [''bot-1'' \<mapsto>
             replicate 1000 \<lparr>level = L_debug, message = ''Health check passed: hc_1''\<rparr>]\<rparr>)))
        ''bot-1'' =
     Some (replicate 999 \<lparr>level = L_debug, message = ''Health check passed: hc_1''\<rparr> @
           [\<lparr>level = L_warn, message = ''Bot is not running''\<rparr>])"
proof -
  let ?full = "initial_state\<lparr>logs := [''bot-1'' \<mapsto>
             replicate 1000 \<lparr>level = L_debug, message = ''Health check passed: hc_1''\<rparr>]\<rparr>"
  have n: "runningBots initial_state ''bot-1'' = None"
    by (simp add: initial_state_def)
  have m: "runningBots ?full ''bot-1'' = None"
    by (simp add: initial_state_def)
  have g: "getLogs ''bot-1'' initial_state = []"
    by (simp add: getLogs_def initial_state_def)
  have f: "getLogs ''bot-1'' ?full =
             replicate 1000 \<lparr>level = L_debug, message = ''Health check passed: hc_1''\<rparr>"
    by (simp add: getLogs_def)
  show ?thesis
    using stop_not_live [OF n, of Delivered] stop_not_live [OF m, of Delivered]
    by (simp add: g f addLog_logs)
qed

subsection \<open>Starting an id that is live\<close>

text \<open>
  Claim C6. For every id already tracked as live, \<open>startBot\<close> returns false and
  changes no state of the supervisor: the persisted bots (so the status of the
  process), the live table, the child objects, the health and retry records and the
  pending timers are as before, and the table holds exactly the one handle it held
  for the id. All the call does is hand one entry to the log (the warning
  \<open>Bot already running\<close>, or an error entry when the id has no persisted record).
\<close>

theorem second_start_rejected:
  assumes "runningBots s botId = Some h"
  shows "fst (startBot env botId s) = False \<and>
         runningBots (snd (startBot env botId s)) = runningBots s \<and>
         {h'. runningBots (snd (startBot env botId s)) botId = Some h'} = {h} \<and>
         procs (snd (startBot env botId s)) = procs s \<and>
         healthCheckData (snd (startBot env botId s)) = healthCheckData s \<and>
         retryData (snd (startBot env botId s)) = retryData s \<and>
         timers (snd (startBot env botId s)) = timers s \<and>
         storage (snd (startBot env botId s)) = storage s \<and>
         (\<exists>lvl msg. snd (startBot env botId s) = addLog botId lvl msg s)"
proof (cases "storage s botId")
  case None
  then show ?thesis
    using assms
    by (auto simp add: startBot_def startBot_failed_def updateBotStatus_absent)
next
  case (Some bt)
  then show ?thesis
    using assms by (auto simp add: startBot_def)
qed

theorem second_start_rejected_witness:
  "fst (startBot env_js ''bot-1'' started_state) = False \<and>
   runningBots (snd (startBot env_js ''bot-1'' started_state)) ''bot-1'' = Some 0 \<and>
   storage (snd (startBot env_js ''bot-1'' started_state)) = storage started_state"
proof -
  have l: "runningBots started_state ''bot-1'' = Some 0"
    by (simp add: started_state_eq)
  show ?thesis
    using second_start_rejected [OF l, of env_js] l by simp
qed

subsection \<open>Unresponsive and back\<close>

text \<open>
  Claim C8. When a failure brings \<open>consecutiveFailures\<close> to 3, the persisted status
  becomes \<open>unresponsive\<close>; in any later state where the status is \<open>unresponsive\<close>, a
  response carrying the token of the record is accepted, resets \<open>consecutiveFailures\<close>
  to 0 and sets the status to \<open>running\<close>.
\<close>

theorem unresponsive_then_running:
  assumes "healthCheckData s botId = Some hi"
      and "storage s botId = Some bt"
      and "consecutiveFailures hi + 1 = 3"
  shows "map_option status (storage (handleHealthCheckFailure botId reason s) botId) =
           Some S_unresponsive \<and>
         map_option consecutiveFailures
           (healthCheckData (handleHealthCheckFailure botId reason s) botId) = Some 3 \<and>
         (\<forall>s2 hi2 bt2 tok.
            healthCheckData s2 botId = Some hi2 \<and> healthCheckId hi2 = Some tok \<and>
            storage s2 botId = Some bt2 \<and> status bt2 = S_unresponsive \<longrightarrow>
            map_option status (storage (handleHealthCheckSuccess botId tok s2) botId) =
              Some S_running \<and>
            map_option consecutiveFailures
              (healthCheckData (handleHealthCheckSuccess botId tok s2) botId) = Some 0)"
proof -
  have m: "MAX_CONSECUTIVE_FAILURES \<le> consecutiveFailures hi + 1"
    using assms(3) by (simp add: MAX_CONSECUTIVE_FAILURES_def)
  note f = handleHealthCheckFailure_threshold [OF assms(1,2) m, of reason]
  have c: "map_option consecutiveFailures
           (healthCheckData (handleHealthCheckFailure botId reason s) botId) = Some 3"
    using assms(3) by (simp add: f(2))
  from f(1) c show ?thesis
    by (auto simp add: handleHealthCheckSuccess_accepted)
qed

theorem unresponsive_then_running_witness:
  "map_option status
     (storage (handleHealthCheckFailure ''bot-1'' ''Health check response timeout''
                 two_failures_state) ''bot-1'') = Some S_unresponsive \<and>
   map_option status
     (storage (handleHealthCheckSuccess ''bot-1'' ''hc_181000_e5f6'' unresponsive_probed_state)
        ''bot-1'') = Some S_running \<and>
   map_option consecutiveFailures
     (healthCheckData (handleHealthCheckSuccess ''bot-1'' ''hc_181000_e5f6''
        unresponsive_probed_state) ''bot-1'') = Some 0"
proof -
  let ?hi = "\<lparr>lastCheck = 121000, lastResponse = None, consecutiveFailures = 2,
           isWaitingForResponse = True, healthCheckId = Some ''hc_121000_c1d2'',
           timeoutHandle = Some 3\<rparr>"
  have three: "consecutiveFailures ?hi + 1 = 3" by simp
  note main = unresponsive_then_running [OF two_failures_state_fields three,
      of "''Health check response timeout''"]
  from main have later: "\<And>s2 hi2 bt2 tok.
            healthCheckData s2 ''bot-1'' = Some hi2 \<Longrightarrow> healthCheckId hi2 = Some tok \<Longrightarrow>
            storage s2 ''bot-1'' = Some bt2 \<Longrightarrow> status bt2 = S_unresponsive \<Longrightarrow>
            map_option status (storage (handleHealthCheckSuccess ''bot-1'' tok s2) ''bot-1'') =
              Some S_running \<and>
            map_option consecutiveFailures
              (healthCheckData (handleHealthCheckSuccess ''bot-1'' tok s2) ''bot-1'') = Some 0"
    by blast
  have again: "map_option status
     (storage (handleHealthCheckSuccess ''bot-1'' ''hc_181000_e5f6'' unresponsive_probed_state)
        ''bot-1'') = Some S_running \<and>
   map_option consecutiveFailures
     (healthCheckData (handleHealthCheckSuccess ''bot-1'' ''hc_181000_e5f6''
        unresponsive_probed_state) ''bot-1'') = Some 0"
    by (rule later [OF unresponsive_probed_state_fields(1) _ unresponsive_probed_state_fields(2)])
      simp_all
  from main again show ?thesis by blast
qed

subsection \<open>The status after a graceful stop\<close>

text \<open>
  Claim C10. For a live process, \<open>stopBot\<close> persists \<open>stopped\<close>, sends SIGTERM and
  waits; when the child then exits with code \<open>null\<close> and signal SIGTERM, the exit
  listener installed by \<open>startBot\<close> persists \<open>error\<close>, and the promise of \<open>stopBot\<close>
  is resolved with true: the status after a completed graceful stop is \<open>error\<close>.
\<close>

theorem graceful_stop_ends_in_error:
  assumes "runningBots s botId = Some h" and "procs s h = Some c"
      and "owner c = botId" and "storage s botId = Some bt"
  shows "fst (stopBot Delivered botId s) = None \<and>
         map_option status (storage (snd (stopBot Delivered botId s)) botId) = Some S_stopped \<and>
         map_option status
           (storage (childExit rnd h None (Some ''SIGTERM'') (snd (stopBot Delivered botId s))) botId) =
           Some S_error \<and>
         Option.bind
           (stopCtx h (childExit rnd h None (Some ''SIGTERM'') (snd (stopBot Delivered botId s))))
           resolvedWith = Some True"
proof -
  let ?s1 = "snd (stopBot Delivered botId s)"
  let ?ctx = "\<lparr>stopBotId = botId, isResolved = False, resolvedWith = None,
                forceKillTimeout = Some (nextTimer s), onExitAttached = True,
                onErrorAttached = True\<rparr>"
  let ?c1 = "c\<lparr>killCalls := killCalls c @ [(''SIGTERM'', Delivered)], killed := True,
              stopping := Some ?ctx\<rparr>"
  note stop = stopBot_Delivered [OF assms(1,2)]
  have p1: "procs ?s1 h = Some ?c1"
    by (simp add: stop(3))
  have o1: "owner ?c1 = botId"
    by (simp add: assms(3))
  have st1: "map_option status (storage ?s1 botId) = Some S_stopped"
    by (simp add: stop(2) updateBotStatus_status [OF assms(4)])
  then obtain bt1 where b1: "storage ?s1 (owner ?c1) = Some bt1"
    by (auto simp add: o1)
  have st2: "map_option status (storage (childExit rnd h None (Some ''SIGTERM'') ?s1) botId) =
             Some S_error"
    using childExit_storage [OF p1, of rnd None "Some ''SIGTERM''"]
      updateBotStatus_status [OF b1, of S_error None]
    by (simp add: o1)
  have r: "Option.bind (stopCtx h (childExit rnd h None (Some ''SIGTERM'') ?s1)) resolvedWith =
           Some True"
    by (rule childExit_after_stop(1) [OF p1, of ?ctx]) simp_all
  from stop(1) st1 st2 r show ?thesis by simp
qed

theorem graceful_stop_ends_in_error_witness:
  "map_option status (storage stopping_state ''bot-1'') = Some S_stopped \<and>
   map_option status
     (storage (childExit (1 / 2) 0 None (Some ''SIGTERM'') stopping_state) ''bot-1'') =
     Some S_error"
proof -
  have l: "runningBots started_state ''bot-1'' = Some 0"
    by (simp add: started_state_eq)
  have p: "procs started_state 0 = Some child0"
    by (simp add: started_state_eq)
  have o: "owner child0 = ''bot-1''"
    by (simp add: child0_def)
  have b: "storage started_state ''bot-1'' = Some (bot1\<lparr>status := S_starting, lastActivity := 1000\<rparr>)"
    by (simp add: started_state_eq)
  show ?thesis
    using graceful_stop_ends_in_error [OF l p o b, of "1 / 2"]
    by (simp add: stopping_state_def)
qed

subsection \<open>The force-kill timer\<close>

text \<open>
  After \<open>stopBot\<close> has delivered SIGTERM, Node has set \<open>killed\<close> on the child, so the
  callback of the force-kill timer finds \<open>!childProcess.killed\<close> false: it calls
  \<open>kill\<close> no second time, and resolves the promise with true.
\<close>

lemma forceKill_after_delivered_sigterm:
  assumes "runningBots s b = Some h" and "procs s h = Some c"
  shows "map_option killCalls
           (procs (forceKillTimerFires out (nextTimer s) (snd (stopBot Delivered b s))) h) =
         Some (killCalls c @ [(''SIGTERM'', Delivered)])"
    and "Option.bind (stopCtx h (forceKillTimerFires out (nextTimer s) (snd (stopBot Delivered b s))))
           resolvedWith = Some True"
  using stopBot_Delivered(3,4) [OF assms]
  by (simp_all add: forceKillTimerFires_def forceKill_def stopCtx_def setStopCtx_def updChild_def)

text \<open>
  Claim C9 on the code: \<open>stopBot\<close> delivers SIGTERM to the child of \<open>bot-1\<close>, the child
  does not exit, and the force-kill timer fires after the grace period. The only call
  of \<open>kill\<close> on the child is the one with SIGTERM (no SIGKILL is sent, where the claim
  says it is sent exactly once), nothing is logged, and the promise of \<open>stopBot\<close> is
  resolved with true.
\<close>

theorem force_kill_never_sent:
  "fst (stopBot Delivered ''bot-1'' started_state) = None \<and>
   timers stopping_state 1 = Some (ForceKillTimer ''bot-1'' 0, 5000) \<and>
   map_option killCalls (procs (forceKillTimerFires Delivered 1 stopping_state) 0) =
     Some [(''SIGTERM'', Delivered)] \<and>
   Option.bind (stopCtx 0 (forceKillTimerFires Delivered 1 stopping_state)) resolvedWith =
     Some True \<and>
   logs (forceKillTimerFires Delivered 1 stopping_state) = logs stopping_state"
proof -
  have l: "runningBots started_state ''bot-1'' = Some 0"
    by (simp add: started_state_eq)
  have p: "procs started_state 0 = Some child0"
    by (simp add: started_state_eq)
  have a: "fst (stopBot Delivered ''bot-1'' started_state) = None"
    by (rule stopBot_Delivered(1) [OF l p])
  have b: "timers stopping_state 1 = Some (ForceKillTimer ''bot-1'' 0, 5000)"
    by (simp add: stopping_state_eq)
  have c: "map_option killCalls (procs (forceKillTimerFires Delivered 1 stopping_state) 0) =
             Some [(''SIGTERM'', Delivered)] \<and>
           Option.bind (stopCtx 0 (forceKillTimerFires Delivered 1 stopping_state)) resolvedWith =
             Some True \<and>
           logs (forceKillTimerFires Delivered 1 stopping_state) = logs stopping_state"
    by (simp add: stopping_state_eq forceKillTimerFires_def forceKill_def stopCtx_def
        setStopCtx_def updChild_def child0_def)
  from a b c show ?thesis by simp
qed

subsection \<open>Pending retry timers and stop\<close>

text \<open>
  Claim C1 on the code: no path of \<open>stopBot\<close> or \<open>deleteBot\<close> reaches \<open>cancelRetries\<close>.
  In the concrete run, \<open>bot-1\<close> has crashed and its retry timer (timer 1) is pending.
  Started again by hand and then stopped, with the stop settled by the exit of the
  child: the retry record and the timer are still there, and when the timer fires the
  bot is started again. Stopped or deleted while not live: the retry record and the
  timer are still there as well.
\<close>

theorem stop_leaves_retry_timer:
  "Option.bind (stopCtx 1 stopped_again_state) resolvedWith = Some True \<and>
   runningBots stopped_again_state ''bot-1'' = None \<and>
   map_option attempts (retryData stopped_again_state ''bot-1'') = Some 1 \<and>
   timers stopped_again_state 1 = Some (RetryTimer ''bot-1'' 1, 2500) \<and>
   runningBots (retryTimerFires env_js 1 stopped_again_state) ''bot-1'' = Some 2 \<and>
   fst (stopBot Delivered ''bot-1'' crashed_state) = Some False \<and>
   timers (snd (stopBot Delivered ''bot-1'' crashed_state)) 1 = Some (RetryTimer ''bot-1'' 1, 2500) \<and>
   fst (deleteBot Delivered True ''bot-1'' crashed_state) = Some True \<and>
   storage (snd (deleteBot Delivered True ''bot-1'' crashed_state)) ''bot-1'' = None \<and>
   map_option attempts (retryData (snd (deleteBot Delivered True ''bot-1'' crashed_state)) ''bot-1'') =
     Some 1 \<and>
   timers (snd (deleteBot Delivered True ''bot-1'' crashed_state)) 1 =
     Some (RetryTimer ''bot-1'' 1, 2500)"
proof -
  have a: "Option.bind (stopCtx 1 stopped_again_state) resolvedWith = Some True"
    by (simp add: stopped_again_state_eq stopCtx_def)
  have b: "runningBots stopped_again_state ''bot-1'' = None \<and>
           map_option attempts (retryData stopped_again_state ''bot-1'') = Some 1 \<and>
           timers stopped_again_state 1 = Some (RetryTimer ''bot-1'' 1, 2500)"
    by (simp add: stopped_again_state_eq)
  have c: "runningBots (retryTimerFires env_js 1 stopped_again_state) ''bot-1'' = Some 2"
    by (simp add: stopped_again_state_eq retryTimerFires_def retryFired_def startBot_def
        spawnBot_def env_js_def split_beta Let_def)
  have d: "fst (stopBot Delivered ''bot-1'' crashed_state) = Some False \<and>
           timers (snd (stopBot Delivered ''bot-1'' crashed_state)) 1 =
             Some (RetryTimer ''bot-1'' 1, 2500)"
    by (simp add: crashed_state_eq stopBot_def)
  have e: "fst (deleteBot Delivered True ''bot-1'' crashed_state) = Some True \<and>
           storage (snd (deleteBot Delivered True ''bot-1'' crashed_state)) ''bot-1'' = None \<and>
           map_option attempts
             (retryData (snd (deleteBot Delivered True ''bot-1'' crashed_state)) ''bot-1'') = Some 1 \<and>
           timers (snd (deleteBot Delivered True ''bot-1'' crashed_state)) 1 =
             Some (RetryTimer ''bot-1'' 1, 2500)"
    by (simp add: crashed_state_eq deleteBot_def deleteBot_finish_def deleteBotLogs_def Let_def)
  from a b c d e show ?thesis by simp
qed

end
